theory Spec2Isabelle
  imports Complex_Main "HOL-Library.Product_Lexorder"
begin

section \<open>Numeric values and tensors\<close>

text \<open>
  Tensor elements are modelled over exact real arithmetic. A value is \<open>Some r\<close> for a
  finite number \<open>r\<close> and \<open>None\<close> for a non-finite IEEE result (NaN or an infinity), which
  is what torch produces instead of raising: \<open>0/0\<close>, \<open>x/0\<close>, the mean of no elements,
  the unbiased standard deviation of fewer than two elements. In the operations used by
  \<^verbatim>\<open>datamodules.py\<close> (subtraction, division, sum, square root) a non-finite operand
  never yields a finite result, so \<open>None\<close> is absorbing. Rounding is not modelled.
\<close>

type_synonym fval = "real option"

definition fsub :: "fval \<Rightarrow> fval \<Rightarrow> fval" where
  "fsub a b = (case a of None \<Rightarrow> None
               | Some x \<Rightarrow> (case b of None \<Rightarrow> None | Some y \<Rightarrow> Some (x - y)))"

definition fdiv :: "fval \<Rightarrow> fval \<Rightarrow> fval" where
  "fdiv a b = (case a of None \<Rightarrow> None
               | Some x \<Rightarrow> (case b of None \<Rightarrow> None
                            | Some y \<Rightarrow> if y = 0 then None else Some (x / y)))"

definition fsqrt :: "fval \<Rightarrow> fval" where
  "fsqrt a = (case a of None \<Rightarrow> None | Some x \<Rightarrow> if x < 0 then None else Some (sqrt x))"

text \<open>\<^verbatim>\<open>mean\<close> of a one-dimensional slice: the sum divided by the number of elements.\<close>

definition tmean :: "fval list \<Rightarrow> fval" where
  "tmean xs = (case those xs of None \<Rightarrow> None
               | Some rs \<Rightarrow> fdiv (Some (sum_list rs)) (Some (real (length rs))))"

text \<open>
  \<^verbatim>\<open>std\<close> of a one-dimensional slice, with torch's default Bessel correction:
  the square root of the sum of squared deviations from the mean divided by \<open>N - 1\<close>.
\<close>

definition tstd :: "fval list \<Rightarrow> fval" where
  "tstd xs = (case those xs of None \<Rightarrow> None
              | Some rs \<Rightarrow>
                  (case tmean xs of None \<Rightarrow> None
                   | Some m \<Rightarrow>
                       fsqrt (fdiv (Some (sum_list (map (\<lambda>r. (r - m)\<^sup>2) rs)))
                                   (Some (real (length rs - 1))))))"

text \<open>
  A three-dimensional tensor (samples, sequence length, channels) carries its shape and
  its elements; a two-dimensional tensor (sequence length, channels) is one sample or one
  table of statistics. Elements outside the shape are never read by the operations below.
\<close>

record tensor3 =
  n_rows :: nat
  seq_len :: nat
  n_chan :: nat
  elt :: "nat \<Rightarrow> nat \<Rightarrow> nat \<Rightarrow> fval"

record tensor2 =
  rows2 :: nat
  cols2 :: nat
  elt2 :: "nat \<Rightarrow> nat \<Rightarrow> fval"

definition shape_tail :: "tensor3 \<Rightarrow> nat \<times> nat" where
  "shape_tail T = (seq_len T, n_chan T)"

definition column0 :: "tensor3 \<Rightarrow> nat \<Rightarrow> nat \<Rightarrow> fval list" where
  "column0 T t c = map (\<lambda>i. elt T i t c) [0..<n_rows T]"

definition mean_dim0 :: "tensor3 \<Rightarrow> tensor2" where
  "mean_dim0 T = \<lparr>rows2 = seq_len T, cols2 = n_chan T, elt2 = (\<lambda>t c. tmean (column0 T t c))\<rparr>"

definition std_dim0 :: "tensor3 \<Rightarrow> tensor2" where
  "std_dim0 T = \<lparr>rows2 = seq_len T, cols2 = n_chan T, elt2 = (\<lambda>t c. tstd (column0 T t c))\<rparr>"

datatype error =
    AssertionError string
  | IndexError
  | RuntimeError
  | ValueError
  | TypeError
  | FileNotFoundError
  | EmptyDataError
  | OSError
  | UnpicklingError
  | ExternalError string

text \<open>Indexing a dimension of size \<open>n\<close> with a Python integer: negative indices count from the end.\<close>

definition norm_index :: "nat \<Rightarrow> int \<Rightarrow> error + nat" where
  "norm_index n i =
     (if 0 \<le> i \<and> i < int n then Inr (nat i)
      else if - int n \<le> i \<and> i < 0 then Inr (nat (int n + i))
      else Inl IndexError)"

definition row :: "tensor3 \<Rightarrow> nat \<Rightarrow> tensor2" where
  "row T i = \<lparr>rows2 = seq_len T, cols2 = n_chan T, elt2 = elt T i\<rparr>"

text \<open>Broadcasting of two dimensions: equal, or one of them is 1.\<close>

definition bdim :: "nat \<Rightarrow> nat \<Rightarrow> nat option" where
  "bdim a b = (if a = b then Some a else if a = 1 then Some b else if b = 1 then Some a else None)"

definition bidx :: "nat \<Rightarrow> nat \<Rightarrow> nat" where
  "bidx d k = (if d = 1 then 0 else k)"

definition broadcast2 :: "(fval \<Rightarrow> fval \<Rightarrow> fval) \<Rightarrow> tensor2 \<Rightarrow> tensor2 \<Rightarrow> error + tensor2" where
  "broadcast2 f A B =
     (case bdim (rows2 A) (rows2 B) of None \<Rightarrow> Inl RuntimeError
      | Some r \<Rightarrow>
        (case bdim (cols2 A) (cols2 B) of None \<Rightarrow> Inl RuntimeError
         | Some c \<Rightarrow>
             Inr \<lparr>rows2 = r, cols2 = c,
                  elt2 = (\<lambda>t k. f (elt2 A (bidx (rows2 A) t) (bidx (cols2 A) k))
                                  (elt2 B (bidx (rows2 B) t) (bidx (cols2 B) k)))\<rparr>))"




section \<open>DiffusionDataset\<close>

record DiffusionDataset =
  ds_X :: tensor3
  ds_y :: "int list option"
  ds_standardize :: bool
  feature_mean :: tensor2
  feature_std :: tensor2

text \<open>
  \<^verbatim>\<open>DiffusionDataset.__init__\<close>. The discrete Fourier transform \<^verbatim>\<open>dft\<close> lives in
  \<^verbatim>\<open>src.fdiff.utils.fourier\<close> and is a parameter here.
\<close>

definition DiffusionDataset_init ::
  "(tensor3 \<Rightarrow> tensor3) \<Rightarrow> tensor3 \<Rightarrow> int list option \<Rightarrow> bool \<Rightarrow> bool \<Rightarrow> tensor3 option
     \<Rightarrow> DiffusionDataset" where
  "DiffusionDataset_init dft X0 y fourier stdz X_ref0 =
     (let X = (if fourier then dft X0 else X0);
          X_ref = (case X_ref0 of None \<Rightarrow> X
                   | Some R \<Rightarrow> if fourier then dft R else R)
      in \<lparr>ds_X = X, ds_y = y, ds_standardize = stdz,
          feature_mean = mean_dim0 X_ref, feature_std = std_dim0 X_ref\<rparr>)"





section \<open>Data modules\<close>

text \<open>
  The abstract base class and its six subclasses: the subclass and its own constructor
  arguments are the \<open>adapter\<close>, the fields of the base class are the record.
\<close>

datatype adapter =
    ECG bool bool real
  | Synthetic int int
  | MIMICIII int
  | NASDAQ
  | NASA string bool
  | USDroughts

type_synonym path = "string list"

record datamodule =
  kind :: adapter
  data_dir :: path
  random_seed :: int
  batch_size :: int
  fourier_transform :: bool
  standardize :: bool
  X_train :: tensor3
  y_train :: "int list option"
  X_test :: tensor3
  y_test :: "int list option"

fun dataset_name :: "adapter \<Rightarrow> string" where
  "dataset_name (ECG _ _ _) = ''ecg''"
| "dataset_name (Synthetic _ _) = ''synthetic''"
| "dataset_name (MIMICIII _) = ''mimiciii''"
| "dataset_name NASDAQ = ''nasdaq''"
| "dataset_name (NASA _ _) = ''nasa''"
| "dataset_name USDroughts = ''droughts''"

text \<open>
  \<^verbatim>\<open>Datamodule.__init__\<close>: \<^verbatim>\<open>torch.Tensor()\<close> is an empty tensor, here the tensor
  with no rows.
\<close>

definition empty_tensor :: tensor3 where
  "empty_tensor = \<lparr>n_rows = 0, seq_len = 0, n_chan = 0, elt = (\<lambda>i t c. None)\<rparr>"

definition Datamodule_init :: "adapter \<Rightarrow> path \<Rightarrow> int \<Rightarrow> int \<Rightarrow> bool \<Rightarrow> bool \<Rightarrow> datamodule" where
  "Datamodule_init k dir seed bs fourier stdz =
     \<lparr>kind = k, data_dir = dir @ [dataset_name k], random_seed = seed, batch_size = bs,
      fourier_transform = fourier, standardize = stdz,
      X_train = empty_tensor, y_train = None, X_test = empty_tensor, y_test = None\<rparr>"






subsection \<open>Sample access on the tensor storage\<close>

text \<open>
  Whether a returned tensor shares memory with the stored one is a property of torch's
  storage model: a tensor is a view (storage, offset, sizes, strides) onto a flat buffer.
  Indexing with an integer, as in \<^verbatim>\<open>self.X[index]\<close>, returns a view onto the same
  storage; arithmetic such as \<^verbatim>\<open>(a - b) / c\<close> writes its result into a new storage.
  The heap is the list of storages, a storage's address is its position.
\<close>

type_synonym heap = "fval list list"

record view3 =
  base3 :: nat
  offs3 :: nat
  dims3 :: "nat \<times> nat \<times> nat"
  strides3 :: "nat \<times> nat \<times> nat"

record view2 =
  base2 :: nat
  offs2 :: nat
  dims2 :: "nat \<times> nat"
  strides2 :: "nat \<times> nat"

definition addr3 :: "view3 \<Rightarrow> nat \<Rightarrow> nat \<Rightarrow> nat \<Rightarrow> nat" where
  "addr3 v i t c = (case strides3 v of (s0, s1, s2) \<Rightarrow> offs3 v + i * s0 + t * s1 + c * s2)"

definition addr2 :: "view2 \<Rightarrow> nat \<Rightarrow> nat \<Rightarrow> nat" where
  "addr2 v t c = (case strides2 v of (s1, s2) \<Rightarrow> offs2 v + t * s1 + c * s2)"

definition read3 :: "heap \<Rightarrow> view3 \<Rightarrow> tensor3" where
  "read3 h v = (case dims3 v of (n, l, k) \<Rightarrow>
     \<lparr>n_rows = n, seq_len = l, n_chan = k, elt = (\<lambda>i t c. h ! base3 v ! addr3 v i t c)\<rparr>)"

definition read2 :: "heap \<Rightarrow> view2 \<Rightarrow> tensor2" where
  "read2 h v = (case dims2 v of (l, k) \<Rightarrow>
     \<lparr>rows2 = l, cols2 = k, elt2 = (\<lambda>t c. h ! base2 v ! addr2 v t c)\<rparr>)"

text \<open>A view is well formed when its storage exists and every element lies inside it.\<close>

definition wf_view3 :: "heap \<Rightarrow> view3 \<Rightarrow> bool" where
  "wf_view3 h v = (base3 v < length h \<and>
     (case dims3 v of (n, l, k) \<Rightarrow>
        \<forall>i<n. \<forall>t<l. \<forall>c<k. addr3 v i t c < length (h ! base3 v)))"

text \<open>\<^verbatim>\<open>X[i]\<close> for an index already normalised: the view of row \<open>i\<close>.\<close>

definition index_row :: "view3 \<Rightarrow> nat \<Rightarrow> view2" where
  "index_row v i = (case dims3 v of (n, l, k) \<Rightarrow> case strides3 v of (s0, s1, s2) \<Rightarrow>
     \<lparr>base2 = base3 v, offs2 = offs3 v + i * s0, dims2 = (l, k), strides2 = (s1, s2)\<rparr>)"

text \<open>The result of an arithmetic operation is stored contiguously in a new storage.\<close>

definition flatten2 :: "tensor2 \<Rightarrow> fval list" where
  "flatten2 Z = map (\<lambda>p. elt2 Z (p div cols2 Z) (p mod cols2 Z)) [0..<rows2 Z * cols2 Z]"

definition alloc2 :: "heap \<Rightarrow> tensor2 \<Rightarrow> view2 \<times> heap" where
  "alloc2 h Z = (\<lparr>base2 = length h, offs2 = 0, dims2 = (rows2 Z, cols2 Z),
                  strides2 = (cols2 Z, 1)\<rparr>, h @ [flatten2 Z])"

text \<open>In-place assignment \<^verbatim>\<open>x[t, c] = v\<close> to a two-dimensional tensor.\<close>

definition setitem2 :: "heap \<Rightarrow> view2 \<Rightarrow> nat \<Rightarrow> nat \<Rightarrow> fval \<Rightarrow> error + heap" where
  "setitem2 h x t c v =
     (if t < fst (dims2 x) \<and> c < snd (dims2 x)
      then Inr (h[base2 x := (h ! base2 x)[addr2 x t c := v]])
      else Inl IndexError)"

datatype pyref = TensorR view2 | LabelR int

type_synonym sample_ref = "string \<rightharpoonup> pyref"

text \<open>
  \<^verbatim>\<open>DiffusionDataset.__getitem__\<close> again, now returning references: \<open>v\<close> is the view
  under which the dataset's tensor \<open>X\<close> is stored in the heap \<open>h\<close>. The statistics are only
  read, so they stay values.
\<close>

definition getitem_ref ::
  "heap \<Rightarrow> view3 \<Rightarrow> DiffusionDataset \<Rightarrow> int \<Rightarrow> (error + sample_ref) \<times> heap" where
  "getitem_ref h v ds index =
     (case norm_index (fst (dims3 v)) index of Inl e \<Rightarrow> (Inl e, h)
      | Inr i \<Rightarrow>
        (case (if ds_standardize ds
               then (case broadcast2 fsub (read2 h (index_row v i)) (feature_mean ds) of
                       Inl e \<Rightarrow> (Inl e, h)
                     | Inr D \<Rightarrow>
                       (case broadcast2 fdiv D (feature_std ds) of
                          Inl e \<Rightarrow> (Inl e, h)
                        | Inr Z \<Rightarrow> (case alloc2 h Z of (x, h') \<Rightarrow> (Inr x, h'))))
               else (Inr (index_row v i), h)) of
           (Inl e, h') \<Rightarrow> (Inl e, h')
         | (Inr x, h') \<Rightarrow>
           (case ds_y ds of None \<Rightarrow> (Inr [''X'' \<mapsto> TensorR x], h')
            | Some ys \<Rightarrow>
              (case norm_index (length ys) index of Inl e \<Rightarrow> (Inl e, h')
               | Inr j \<Rightarrow> (Inr [''X'' \<mapsto> TensorR x, ''y'' \<mapsto> LabelR (ys ! j)], h')))))"

text \<open>The tensor under the key \<^verbatim>\<open>"X"\<close> of a returned dictionary.\<close>

definition sample_X :: "(error + sample_ref) \<Rightarrow> view2 option" where
  "sample_X r = (case r of Inl e \<Rightarrow> None
                 | Inr s \<Rightarrow> (case s ''X'' of Some (TensorR x) \<Rightarrow> Some x | _ \<Rightarrow> None))"


section \<open>Files, external collaborators and the adapters\<close>

text \<open>
  A file system maps a path (its components) to what is stored there. A CSV file is the
  table of its lines, a \<^verbatim>\<open>.pt\<close> file is the three-dimensional tensor saved in it.
  The world also carries a trace of the calls made to the fetch routine
  (\<^verbatim>\<open>download_data\<close>) and to the preprocessing routines; the trace is not program state,
  it records which of these routines a run invoked.
\<close>

record frame =
  f_rows :: nat
  f_cols :: nat
  cell :: "nat \<Rightarrow> nat \<Rightarrow> real"

datatype fobj = Dir | CsvFile frame | PtFile tensor3 | RawFile

type_synonym filesys = "path \<rightharpoonup> fobj"

datatype event = FetchCall string | PreprocessCall string

record world =
  fs :: filesys
  calls :: "event list"

text \<open>
  Code outside \<^verbatim>\<open>datamodules.py\<close>, taken as parameters: the localization metrics and
  the frequency smoothing of \<^verbatim>\<open>src.fdiff.utils.fourier\<close>, the preprocessing routines of
  \<^verbatim>\<open>src.fdiff.utils.preprocessing\<close>, the Kaggle client, numpy's random generator (the
  stream of normal and of beta draws) and \<^verbatim>\<open>torch.argsort\<close> (by its \<^verbatim>\<open>descending\<close> flag). A routine acting on files returns the new file
  system and the exception it raised, if any.
\<close>

record collab =
  localization_metrics :: "tensor3 \<Rightarrow> fval list \<times> fval list"
  smooth_frequency :: "tensor3 \<Rightarrow> real \<Rightarrow> tensor3"
  kaggle_download_files :: "string \<Rightarrow> path \<Rightarrow> filesys \<Rightarrow> error option \<times> filesys"
  mimic_preprocess :: "path \<Rightarrow> int \<Rightarrow> filesys \<Rightarrow> error option \<times> filesys"
  nasdaq_preprocess :: "path \<Rightarrow> int \<Rightarrow> filesys \<Rightarrow> error option \<times> filesys"
  nasa_preprocess :: "path \<Rightarrow> string \<Rightarrow> int \<Rightarrow> filesys \<Rightarrow> error option \<times> filesys"
  droughts_preprocess :: "path \<Rightarrow> int \<Rightarrow> filesys \<Rightarrow> error option \<times> filesys"
  random_normal :: "nat \<Rightarrow> real"
  random_beta :: "nat \<Rightarrow> real"
  torch_argsort :: "bool \<Rightarrow> fval list \<Rightarrow> nat list"

definition path_exists :: "filesys \<Rightarrow> path \<Rightarrow> bool" where
  "path_exists f p = (f p \<noteq> None)"

definition ancestors :: "path \<Rightarrow> path list" where
  "ancestors p = map (\<lambda>k. take k p) [1..<Suc (length p)]"

text \<open>\<^verbatim>\<open>os.makedirs\<close>: creates the directory and the missing directories above it.\<close>

definition makedirs :: "path \<Rightarrow> filesys \<Rightarrow> error + filesys" where
  "makedirs p f =
     (if path_exists f p then Inl OSError
      else if list_ex (\<lambda>q. path_exists f q \<and> f q \<noteq> Some Dir) (ancestors p) then Inl OSError
      else Inr (\<lambda>q. if q \<in> set (ancestors p) then Some Dir else f q))"

text \<open>
  \<^verbatim>\<open>pd.read_csv\<close>: with a header (the default) the first line names the columns and the
  data are the remaining lines; with \<^verbatim>\<open>header=None\<close> every line is data.
\<close>

definition read_csv :: "bool \<Rightarrow> path \<Rightarrow> filesys \<Rightarrow> error + frame" where
  "read_csv header p f =
     (case f p of None \<Rightarrow> Inl FileNotFoundError
      | Some Dir \<Rightarrow> Inl OSError
      | Some (PtFile T) \<Rightarrow> Inl ValueError
      | Some RawFile \<Rightarrow> Inl ValueError
      | Some (CsvFile F) \<Rightarrow>
          if f_rows F = 0 \<or> f_cols F = 0 then Inl EmptyDataError
          else if header
          then Inr \<lparr>f_rows = f_rows F - 1, f_cols = f_cols F, cell = (\<lambda>i. cell F (Suc i))\<rparr>
          else Inr F)"

definition to_csv :: "frame \<Rightarrow> path \<Rightarrow> filesys \<Rightarrow> error + filesys" where
  "to_csv F p f =
     (if f (butlast p) \<noteq> Some Dir \<or> f p = Some Dir then Inl OSError
      else Inr (f(p \<mapsto> CsvFile F)))"

definition torch_load :: "path \<Rightarrow> filesys \<Rightarrow> error + tensor3" where
  "torch_load p f =
     (case f p of None \<Rightarrow> Inl FileNotFoundError
      | Some Dir \<Rightarrow> Inl OSError
      | Some (CsvFile F) \<Rightarrow> Inl UnpicklingError
      | Some RawFile \<Rightarrow> Inl UnpicklingError
      | Some (PtFile T) \<Rightarrow> Inr T)"

subsection \<open>Slicing and indexing\<close>

text \<open>The number of elements that \<^verbatim>\<open>xs[:k]\<close> keeps of a sequence of length \<open>n\<close>.\<close>

definition slice_stop :: "nat \<Rightarrow> int \<Rightarrow> nat" where
  "slice_stop n k = (if k < 0 then nat (int n + k) else min (nat k) n)"

text \<open>\<^verbatim>\<open>X[:, :, idx]\<close> with a list of channel indices.\<close>

definition select_channels :: "tensor3 \<Rightarrow> nat list \<Rightarrow> error + tensor3" where
  "select_channels T idx =
     (if list_ex (\<lambda>k. n_chan T \<le> k) idx then Inl IndexError
      else Inr \<lparr>n_rows = n_rows T, seq_len = seq_len T, n_chan = length idx,
                elt = (\<lambda>i t c. elt T i t (idx ! c))\<rparr>)"

text \<open>\<^verbatim>\<open>X[:, :, :k]\<close>.\<close>

definition channels_upto :: "tensor3 \<Rightarrow> int \<Rightarrow> tensor3" where
  "channels_upto T k = T\<lparr>n_chan := slice_stop (n_chan T) k\<rparr>"

text \<open>\<^verbatim>\<open>X[:, ::2, idx]\<close>.\<close>

definition every_other_step :: "tensor3 \<Rightarrow> nat list \<Rightarrow> error + tensor3" where
  "every_other_step T idx =
     (if list_ex (\<lambda>k. n_chan T \<le> k) idx then Inl IndexError
      else Inr \<lparr>n_rows = n_rows T, seq_len = (seq_len T + 1) div 2, n_chan = length idx,
                elt = (\<lambda>i t c. elt T i (2 * t) (idx ! c))\<rparr>)"

text \<open>\<^verbatim>\<open>X[idx]\<close> and \<^verbatim>\<open>y[idx]\<close> with a list of row indices.\<close>

definition gather_rows :: "tensor3 \<Rightarrow> nat list \<Rightarrow> error + tensor3" where
  "gather_rows T idx =
     (if list_ex (\<lambda>k. n_rows T \<le> k) idx then Inl IndexError
      else Inr \<lparr>n_rows = length idx, seq_len = seq_len T, n_chan = n_chan T,
                elt = (\<lambda>i. elt T (idx ! i))\<rparr>)"

definition gather_labels :: "int list \<Rightarrow> nat list \<Rightarrow> error + int list" where
  "gather_labels ys idx =
     (if list_ex (\<lambda>k. length ys \<le> k) idx then Inl IndexError
      else Inr (map (\<lambda>k. ys ! k) idx))"

text \<open>
  \<^verbatim>\<open>torch.argsort\<close> returns indices that sort the values, NaN counting as the largest
  value; among equal values it fixes no order (\<^verbatim>\<open>stable=False\<close>). The function itself is
  therefore a parameter (\<open>torch_argsort\<close> below, with the \<^verbatim>\<open>descending\<close> flag), and what
  torch guarantees of a descending result is \<open>is_argsort_desc\<close>: the indices are a
  permutation of the positions, and each ranks at least as high as those after it.
\<close>

definition score_ge :: "fval \<Rightarrow> fval \<Rightarrow> bool" where
  "score_ge a b = (case a of None \<Rightarrow> True
                   | Some x \<Rightarrow> (case b of None \<Rightarrow> False | Some y \<Rightarrow> y \<le> x))"

definition is_argsort_desc :: "fval list \<Rightarrow> nat list \<Rightarrow> bool" where
  "is_argsort_desc xs idx =
     (distinct idx \<and> set idx = {0..<length xs}
      \<and> sorted_wrt (\<lambda>i j. score_ge (xs ! i) (xs ! j)) idx)"

text \<open>\<^verbatim>\<open>torch.tensor(values, dtype=torch.float32).unsqueeze(2)\<close> of the first \<open>k\<close> columns.\<close>

definition frame_tensor :: "frame \<Rightarrow> nat \<Rightarrow> tensor3" where
  "frame_tensor F k = \<lparr>n_rows = f_rows F, seq_len = k, n_chan = 1,
                        elt = (\<lambda>i t c. Some (cell F i t))\<rparr>"

text \<open>
  \<^verbatim>\<open>torch.tensor(values, dtype=torch.long)\<close> of column \<open>k\<close>: truncation towards zero; a value
  outside the 64-bit range becomes \<open>- 2\<^sup>6\<^sup>3\<close>.
\<close>

definition to_long :: "real \<Rightarrow> int" where
  "to_long r =
     (let z = (if 0 \<le> r then \<lfloor>r\<rfloor> else \<lceil>r\<rceil>)
      in if - (2 ^ 63) \<le> z \<and> z < 2 ^ 63 then z else - (2 ^ 63))"

definition frame_labels :: "frame \<Rightarrow> nat \<Rightarrow> int list" where
  "frame_labels F k = map (\<lambda>i. to_long (cell F i k)) [0..<f_rows F]"

subsection \<open>Fetching: \<^verbatim>\<open>download_data\<close> and \<^verbatim>\<open>prepare_data\<close>\<close>

definition join_path :: "path \<Rightarrow> string" where
  "join_path p = concat (map (\<lambda>d. ''/'' @ d) p)"

definition mimic_message :: "path \<Rightarrow> string" where
  "mimic_message p =
     ''Dataset '' @ join_path p @ '' does not exist. '' @
     ''Because MIMIC-III is a restricted dataset, you need to download it yourself. '' @
     ''Our implementation relies on the default MIMIC-Extract preprocessed version of the dataset. '' @
     ''Please follow the instruction on https://github.com/MLforHealth/MIMIC_Extract/tree/master.''"

definition kaggle_fetch :: "collab \<Rightarrow> string \<Rightarrow> datamodule \<Rightarrow> world \<Rightarrow> (error + unit) \<times> world" where
  "kaggle_fetch E name m w =
     (case kaggle_download_files E name (data_dir m) (fs w) of
        (None, f') \<Rightarrow> (Inr (), w\<lparr>fs := f'\<rparr>)
      | (Some e, f') \<Rightarrow> (Inl e, w\<lparr>fs := f'\<rparr>))"

text \<open>
  \<^verbatim>\<open>SyntheticDatamodule.download_data\<close>: \<open>2 * num_samples\<close> sinusoids with random phase
  and frequency, the first half saved as \<^verbatim>\<open>train.csv\<close>, the rest as \<^verbatim>\<open>test.csv\<close>.
\<close>

definition synthetic_X :: "collab \<Rightarrow> int \<Rightarrow> int \<Rightarrow> frame" where
  "synthetic_X E max_len num_samples =
     \<lparr>f_rows = nat (2 * num_samples), f_cols = nat max_len,
      cell = (\<lambda>i t. sin (real t * random_beta E i + random_normal E i))\<rparr>"

definition rows_upto :: "frame \<Rightarrow> int \<Rightarrow> frame" where
  "rows_upto F k = F\<lparr>f_rows := slice_stop (f_rows F) k\<rparr>"

definition rows_from :: "frame \<Rightarrow> int \<Rightarrow> frame" where
  "rows_from F k = \<lparr>f_rows = f_rows F - slice_stop (f_rows F) k, f_cols = f_cols F,
                     cell = (\<lambda>i. cell F (slice_stop (f_rows F) k + i))\<rparr>"

definition Synthetic_download_data ::
  "collab \<Rightarrow> int \<Rightarrow> int \<Rightarrow> datamodule \<Rightarrow> world \<Rightarrow> (error + unit) \<times> world" where
  "Synthetic_download_data E max_len num_samples m w =
     (if 2 * num_samples < 0 then (Inl ValueError, w)
      else
        let X = synthetic_X E max_len num_samples;
            df_train = rows_upto X num_samples;
            df_test = rows_from X num_samples
        in (case to_csv df_train (data_dir m @ [''train.csv'']) (fs w) of
              Inl e \<Rightarrow> (Inl e, w)
            | Inr f1 \<Rightarrow>
              (case to_csv df_test (data_dir m @ [''test.csv'']) f1 of
                 Inl e \<Rightarrow> (Inl e, w\<lparr>fs := f1\<rparr>)
               | Inr f2 \<Rightarrow> (Inr (), w\<lparr>fs := f2\<rparr>))))"

definition MIMICIII_download_data :: "datamodule \<Rightarrow> world \<Rightarrow> (error + unit) \<times> world" where
  "MIMICIII_download_data m w =
     (let dataset_path = data_dir m @ [''all_hourly_data.h5'']
      in if path_exists (fs w) dataset_path then (Inr (), w)
         else (Inl (AssertionError (mimic_message dataset_path)), w))"

text \<open>\<^verbatim>\<open>download_data\<close>, dispatched on the subclass; the call is entered in the trace.\<close>

definition download_data :: "collab \<Rightarrow> datamodule \<Rightarrow> world \<Rightarrow> (error + unit) \<times> world" where
  "download_data E m w =
     (let w1 = w\<lparr>calls := calls w @ [FetchCall (dataset_name (kind m))]\<rparr>
      in case kind m of
           ECG _ _ _ \<Rightarrow> kaggle_fetch E ''shayanfazeli/heartbeat'' m w1
         | Synthetic max_len num_samples \<Rightarrow> Synthetic_download_data E max_len num_samples m w1
         | MIMICIII _ \<Rightarrow> MIMICIII_download_data m w1
         | NASDAQ \<Rightarrow> kaggle_fetch E ''jacksoncrow/stock-market-dataset'' m w1
         | NASA _ _ \<Rightarrow> kaggle_fetch E ''patrickfleith/nasa-battery-dataset'' m w1
         | USDroughts \<Rightarrow> kaggle_fetch E ''cdminix/us-drought-meteorological-data'' m w1)"

definition prepare_data :: "collab \<Rightarrow> datamodule \<Rightarrow> world \<Rightarrow> (error + unit) \<times> world" where
  "prepare_data E m w =
     (if \<not> path_exists (fs w) (data_dir m)
      then (case makedirs (data_dir m) (fs w) of
              Inl e \<Rightarrow> (Inl e, w)
            | Inr f' \<Rightarrow> download_data E m (w\<lparr>fs := f'\<rparr>))
      else (Inr (), w))"

subsection \<open>\<^verbatim>\<open>setup\<close>\<close>

text \<open>
  The cache test shared by four adapters: when one of \<^verbatim>\<open>X_train.pt\<close>,
  \<^verbatim>\<open>X_test.pt\<close> is missing under \<open>dir\<close>, the adapter's preprocessing routine \<open>prep\<close> runs
  (and the call is entered in the trace).
\<close>

definition cached :: "filesys \<Rightarrow> path \<Rightarrow> bool" where
  "cached f dir = (path_exists f (dir @ [''X_train.pt'']) \<and> path_exists f (dir @ [''X_test.pt'']))"

definition preprocess_if_missing ::
  "(filesys \<Rightarrow> error option \<times> filesys) \<Rightarrow> string \<Rightarrow> path \<Rightarrow> world \<Rightarrow> (error + unit) \<times> world" where
  "preprocess_if_missing prep name dir w =
     (if \<not> path_exists (fs w) (dir @ [''X_train.pt'']) \<or> \<not> path_exists (fs w) (dir @ [''X_test.pt''])
      then (case prep (fs w) of
              (None, f') \<Rightarrow> (Inr (), \<lparr>fs = f', calls = calls w @ [PreprocessCall name]\<rparr>)
            | (Some e, f') \<Rightarrow> (Inl e, \<lparr>fs = f', calls = calls w @ [PreprocessCall name]\<rparr>))
      else (Inr (), w))"

text \<open>\<^verbatim>\<open>torch.load\<close> of the two cached tensors, training tensor first.\<close>

definition load_pair :: "path \<Rightarrow> filesys \<Rightarrow> error + tensor3 \<times> tensor3" where
  "load_pair dir f =
     (case torch_load (dir @ [''X_train.pt'']) f of Inl e \<Rightarrow> Inl e
      | Inr A \<Rightarrow>
        (case torch_load (dir @ [''X_test.pt'']) f of Inl e \<Rightarrow> Inl e
         | Inr B \<Rightarrow> Inr (A, B)))"

text \<open>ECG: the subsampling of the training set by localization score.\<close>

definition ECG_subsample :: "collab \<Rightarrow> datamodule \<Rightarrow> error + datamodule" where
  "ECG_subsample E m =
     (case localization_metrics E (X_train m) of (X_loc, X_spec_loc) \<Rightarrow>
        if length X_loc \<noteq> length X_spec_loc then Inl RuntimeError
        else
          let loc_score = map2 fdiv X_loc X_spec_loc;
              idx = take 1000 (torch_argsort E False loc_score)
          in (case gather_rows (X_train m) idx of Inl e \<Rightarrow> Inl e
              | Inr X' \<Rightarrow>
                (case y_train m of None \<Rightarrow> Inl RuntimeError
                 | Some ys \<Rightarrow>
                   (case gather_labels ys idx of Inl e \<Rightarrow> Inl e
                    | Inr ys' \<Rightarrow> Inr (m\<lparr>X_train := X', y_train := Some ys'\<rparr>)))))"

definition ECG_setup ::
  "collab \<Rightarrow> bool \<Rightarrow> bool \<Rightarrow> real \<Rightarrow> datamodule \<Rightarrow> filesys \<Rightarrow> error + datamodule" where
  "ECG_setup E subsample smooth width m f =
     (case read_csv True (data_dir m @ [''mitbih_train.csv'']) f of Inl e \<Rightarrow> Inl e
      | Inr df_train \<Rightarrow>
        if f_cols df_train \<le> 187 then Inl IndexError
        else
          (case read_csv True (data_dir m @ [''mitbih_test.csv'']) f of Inl e \<Rightarrow> Inl e
           | Inr df_test \<Rightarrow>
             if f_cols df_test \<le> 187 then Inl IndexError
             else if f_rows df_train = 0 \<or> f_rows df_test = 0 then Inl TypeError
             else
               let m1 = m\<lparr>X_train := frame_tensor df_train 187,
                           y_train := Some (frame_labels df_train 187),
                           X_test := frame_tensor df_test 187,
                           y_test := Some (frame_labels df_test 187)\<rparr>
               in (case (if subsample then ECG_subsample E m1 else Inr m1) of Inl e \<Rightarrow> Inl e
                   | Inr m2 \<Rightarrow>
                       if smooth \<and> width > 0
                       then Inr (m2\<lparr>X_train := smooth_frequency E (X_train m2) width,
                                     X_test := smooth_frequency E (X_test m2) width\<rparr>)
                       else Inr m2)))"

definition Synthetic_setup :: "datamodule \<Rightarrow> filesys \<Rightarrow> error + datamodule" where
  "Synthetic_setup m f =
     (case read_csv False (data_dir m @ [''train.csv'']) f of Inl e \<Rightarrow> Inl e
      | Inr df_train \<Rightarrow>
        (case read_csv False (data_dir m @ [''test.csv'']) f of Inl e \<Rightarrow> Inl e
         | Inr df_test \<Rightarrow>
             Inr (m\<lparr>X_train := frame_tensor df_train (f_cols df_train), y_train := None,
                     X_test := frame_tensor df_test (f_cols df_test), y_test := None\<rparr>)))"

text \<open>
  MIMIC-III: the score of a channel is its standard deviation over the samples, averaged
  over the time steps; the channels are ranked by decreasing score and the first
  \<open>n_feats\<close> are kept (\<^verbatim>\<open>[: self.n_feats]\<close>).
\<close>

definition mimic_scores :: "tensor3 \<Rightarrow> fval list" where
  "mimic_scores T =
     map (\<lambda>c. tmean (map (\<lambda>t. elt2 (std_dim0 T) t c) [0..<seq_len T])) [0..<n_chan T]"

definition top_feats :: "collab \<Rightarrow> tensor3 \<Rightarrow> int \<Rightarrow> nat list" where
  "top_feats E T n_feats =
     (let ranking = torch_argsort E True (mimic_scores T)
      in take (slice_stop (length ranking) n_feats) ranking)"

definition MIMICIII_load ::
  "collab \<Rightarrow> int \<Rightarrow> datamodule \<Rightarrow> filesys \<Rightarrow> error + datamodule" where
  "MIMICIII_load E n_feats m f =
     (case load_pair (data_dir m) f of Inl e \<Rightarrow> Inl e
      | Inr (A, B) \<Rightarrow>
        let feats = top_feats E A n_feats
        in (case select_channels A feats of Inl e \<Rightarrow> Inl e
            | Inr A' \<Rightarrow>
              (case select_channels B feats of Inl e \<Rightarrow> Inl e
               | Inr B' \<Rightarrow> Inr (m\<lparr>X_train := A', X_test := B'\<rparr>))))"

definition NASDAQ_load :: "datamodule \<Rightarrow> filesys \<Rightarrow> error + datamodule" where
  "NASDAQ_load m f =
     (case load_pair (data_dir m) f of Inl e \<Rightarrow> Inl e
      | Inr (A, B) \<Rightarrow>
        if \<not> (shape_tail A = shape_tail B \<and> shape_tail B = (252, 6))
        then Inl (AssertionError [])
        else Inr (m\<lparr>X_train := channels_upto A (- 1), X_test := channels_upto B (- 1)\<rparr>))"

definition NASA_load :: "string \<Rightarrow> bool \<Rightarrow> datamodule \<Rightarrow> filesys \<Rightarrow> error + datamodule" where
  "NASA_load subdataset remove_outlier_feature m f =
     (case load_pair (data_dir m @ [subdataset]) f of Inl e \<Rightarrow> Inl e
      | Inr (A, B) \<Rightarrow>
        if remove_outlier_feature \<and> subdataset = ''charge''
        then (case every_other_step A [0, 1, 3, 4] of Inl e \<Rightarrow> Inl e
              | Inr A' \<Rightarrow>
                (case every_other_step B [0, 1, 3, 4] of Inl e \<Rightarrow> Inl e
                 | Inr B' \<Rightarrow>
                     if \<not> (n_chan A' = n_chan B' \<and> n_chan B' = 4) then Inl (AssertionError [])
                     else if seq_len A' \<noteq> 251 then Inl (AssertionError [])
                     else if seq_len B' \<noteq> 251 then Inl (AssertionError [])
                     else Inr (m\<lparr>X_train := A', X_test := B'\<rparr>)))
        else Inr (m\<lparr>X_train := A, X_test := B\<rparr>))"

text \<open>US droughts: the channels kept are those whose index is not in \<open>{4, 5, 6, 7, 9}\<close>.\<close>

definition drought_feats :: "nat \<Rightarrow> nat list" where
  "drought_feats k = filter (\<lambda>i. i \<notin> {4, 5, 6, 7, 9}) [0..<k]"

definition USDroughts_load :: "datamodule \<Rightarrow> filesys \<Rightarrow> error + datamodule" where
  "USDroughts_load m f =
     (case load_pair (data_dir m) f of Inl e \<Rightarrow> Inl e
      | Inr (A, B) \<Rightarrow>
        let feats = drought_feats (n_chan A)
        in (case select_channels A feats of Inl e \<Rightarrow> Inl e
            | Inr A' \<Rightarrow>
              (case select_channels B feats of Inl e \<Rightarrow> Inl e
               | Inr B' \<Rightarrow>
                   if \<not> (seq_len A' mod 365 = seq_len B' mod 365 \<and> seq_len B' mod 365 = 0)
                   then Inl (AssertionError [])
                   else if \<not> (n_chan A' = n_chan B' \<and> n_chan B' = length feats)
                   then Inl (AssertionError [])
                   else Inr (m\<lparr>X_train := A', X_test := B'\<rparr>))))"

text \<open>
  \<^verbatim>\<open>setup\<close>, dispatched on the subclass. A run that raises returns the exception; the
  fields it had assigned before raising are not part of the result.
\<close>

definition after_cache ::
  "(error + unit) \<times> world \<Rightarrow> (filesys \<Rightarrow> error + datamodule) \<Rightarrow> (error + datamodule) \<times> world" where
  "after_cache r load = (case r of (Inl e, w') \<Rightarrow> (Inl e, w')
                         | (Inr u, w') \<Rightarrow> (load (fs w'), w'))"

definition setup_module :: "collab \<Rightarrow> datamodule \<Rightarrow> world \<Rightarrow> (error + datamodule) \<times> world" where
  "setup_module E m w =
     (case kind m of
        ECG subsample smooth width \<Rightarrow> (ECG_setup E subsample smooth width m (fs w), w)
      | Synthetic max_len num_samples \<Rightarrow> (Synthetic_setup m (fs w), w)
      | MIMICIII n_feats \<Rightarrow>
          after_cache (preprocess_if_missing (mimic_preprocess E (data_dir m) (random_seed m))
                         ''mimiciii'' (data_dir m) w)
            (MIMICIII_load E n_feats m)
      | NASDAQ \<Rightarrow>
          after_cache (preprocess_if_missing (nasdaq_preprocess E (data_dir m) (random_seed m))
                         ''nasdaq'' (data_dir m) w)
            (NASDAQ_load m)
      | NASA subdataset remove_outlier_feature \<Rightarrow>
          after_cache (preprocess_if_missing
                         (nasa_preprocess E (data_dir m) subdataset (random_seed m))
                         ''nasa'' (data_dir m @ [subdataset]) w)
            (NASA_load subdataset remove_outlier_feature m)
      | USDroughts \<Rightarrow>
          after_cache (preprocess_if_missing (droughts_preprocess E (data_dir m) (random_seed m))
                         ''droughts'' (data_dir m) w)
            (USDroughts_load m))"

section \<open>Example inputs\<close>

text \<open>
  Concrete tensors, modules, heaps and file systems on which the properties below are
  evaluated. The example collaborators do nothing: the transforms are the identity and the
  routines acting on files leave the file system as it is.
\<close>

definition ex_tensor :: tensor3 where
  "ex_tensor = \<lparr>n_rows = 2, seq_len = 1, n_chan = 1, elt = (\<lambda>i t c. Some (real i))\<rparr>"


definition ex_heap :: heap where
  "ex_heap = [[Some 1, Some 2]]"

definition ex_view :: view3 where
  "ex_view = \<lparr>base3 = 0, offs3 = 0, dims3 = (2, 1, 1), strides3 = (1, 1, 1)\<rparr>"

definition ex_dataset :: "bool \<Rightarrow> DiffusionDataset" where
  "ex_dataset stdz =
     DiffusionDataset_init (\<lambda>T. T) (read3 ex_heap ex_view) (Some [0, 1]) False stdz None"

text \<open>
  A stable argsort, which keeps equal values in index order: one of the behaviours that
  \<^verbatim>\<open>torch.argsort\<close> may show, used by the example collaborators.
\<close>

definition key_asc :: "fval \<Rightarrow> nat \<times> real" where
  "key_asc x = (case x of None \<Rightarrow> (1, 0) | Some r \<Rightarrow> (0, r))"

definition key_desc :: "fval \<Rightarrow> nat \<times> real" where
  "key_desc x = (case x of None \<Rightarrow> (0, 0) | Some r \<Rightarrow> (1, - r))"

definition argsort_asc :: "fval list \<Rightarrow> nat list" where
  "argsort_asc xs = sort_key (\<lambda>i. key_asc (xs ! i)) [0..<length xs]"

definition argsort_desc :: "fval list \<Rightarrow> nat list" where
  "argsort_desc xs = sort_key (\<lambda>i. key_desc (xs ! i)) [0..<length xs]"

definition ex_collab :: collab where
  "ex_collab =
     \<lparr>localization_metrics = (\<lambda>T. (replicate (n_rows T) (Some 1), replicate (n_rows T) (Some 1))),
      smooth_frequency = (\<lambda>T sigma. T),
      kaggle_download_files = (\<lambda>name p f. (None, f)),
      mimic_preprocess = (\<lambda>p seed f. (None, f)),
      nasdaq_preprocess = (\<lambda>p seed f. (None, f)),
      nasa_preprocess = (\<lambda>p sub seed f. (None, f)),
      droughts_preprocess = (\<lambda>p seed f. (None, f)),
      random_normal = (\<lambda>i. 0),
      random_beta = (\<lambda>i. 1 / 2),
      torch_argsort = (\<lambda>descending xs. if descending then argsort_desc xs else argsort_asc xs)\<rparr>"

definition ex_mimic :: datamodule where
  "ex_mimic = Datamodule_init (MIMICIII 40) [''data''] 42 32 False False"

definition ex_world_empty_dir :: world where
  "ex_world_empty_dir =
     \<lparr>fs = [[''data''] \<mapsto> Dir, [''data'', ''mimiciii''] \<mapsto> Dir], calls = []\<rparr>"

definition ex_world_no_dir :: world where
  "ex_world_no_dir = \<lparr>fs = [[''data''] \<mapsto> Dir], calls = []\<rparr>"

definition ex_synthetic :: datamodule where
  "ex_synthetic = Datamodule_init (Synthetic 100 1000) [''data''] 42 32 False False"

definition ex_cache :: "path \<Rightarrow> tensor3 \<Rightarrow> tensor3 \<Rightarrow> world" where
  "ex_cache dir A B =
     \<lparr>fs = [dir \<mapsto> Dir, dir @ [''X_train.pt''] \<mapsto> PtFile A, dir @ [''X_test.pt''] \<mapsto> PtFile B],
      calls = []\<rparr>"

definition ex_world_synthetic :: world where
  "ex_world_synthetic =
     \<lparr>fs = [[''data''] \<mapsto> Dir, [''data'', ''synthetic''] \<mapsto> Dir], calls = []\<rparr>"

definition ex_series :: "nat \<Rightarrow> nat \<Rightarrow> tensor3" where
  "ex_series l k = \<lparr>n_rows = 1, seq_len = l, n_chan = k, elt = (\<lambda>i t c. Some (real c))\<rparr>"

definition ex_droughts :: datamodule where
  "ex_droughts = Datamodule_init USDroughts [''data''] 42 32 False False"

definition ex_mimic_negative :: datamodule where
  "ex_mimic_negative = Datamodule_init (MIMICIII (- 1)) [''data''] 42 32 False False"

definition ex_mimic_two :: datamodule where
  "ex_mimic_two = Datamodule_init (MIMICIII 2) [''data''] 42 32 False False"

text \<open>
  Three samples, \<open>l\<close> time steps and \<open>k\<close> channels; channel \<open>c\<close> at step \<open>t\<close> holds \<open>0\<close>, \<open>a\<close> and
  \<open>2a\<close> for \<open>a = (c+1)(t+1)\<close>, so that its standard deviation over the samples is \<open>a\<close>.
\<close>

definition ex_ramp :: "nat \<Rightarrow> nat \<Rightarrow> tensor3" where
  "ex_ramp l k = \<lparr>n_rows = 3, seq_len = l, n_chan = k,
                   elt = (\<lambda>i t c. Some (real (i * (Suc c * Suc t))))\<rparr>"

definition ex_nasdaq :: datamodule where
  "ex_nasdaq = Datamodule_init NASDAQ [''data''] 42 32 False False"



definition ex_ranked :: tensor3 where
  "ex_ranked = ex_ramp 1 3"


section \<open>Properties\<close>

subsection \<open>Normalization statistics of the validation split\<close>


subsection \<open>Shuffling and standardization of the three splits\<close>





subsection \<open>Sample access: values and sharing of storage\<close>

lemma bidx_less: "t < d \<Longrightarrow> bidx d t = t"
  by (auto simp: bidx_def)

lemma bdim_same: "bdim a a = Some a"
  by (simp add: bdim_def)

lemma flatten2_nth:
  assumes "t < rows2 Z" "c < cols2 Z"
  shows "flatten2 Z ! (t * cols2 Z + c) = elt2 Z t c"
proof -
  have "t * cols2 Z + c < rows2 Z * cols2 Z"
  proof -
    have "t * cols2 Z + c < Suc t * cols2 Z" using assms by simp
    also have "\<dots> \<le> rows2 Z * cols2 Z" using assms by (intro mult_le_mono1) simp
    finally show ?thesis .
  qed
  then show ?thesis using assms by (simp add: flatten2_def)
qed

lemma read2_alloc2:
  assumes "t < rows2 Z" "c < cols2 Z"
  shows "elt2 (read2 (snd (alloc2 h Z)) (fst (alloc2 h Z))) t c = elt2 Z t c"
  using flatten2_nth [OF assms] by (simp add: alloc2_def read2_def addr2_def)

lemma read3_other_storage:
  assumes "base3 v < length h"
  shows "read3 ((h @ [z])[length h := z']) v = read3 h v"
    and "read3 (h @ [z]) v = read3 h v"
  using assms by (simp_all add: read3_def nth_append split: prod.splits)

lemma read2_index_row:
  "dims3 v = (n, l, k) \<Longrightarrow> read2 h (index_row v i) = row (read3 h v) i"
  by (simp add: read2_def index_row_def row_def read3_def addr2_def addr3_def split: prod.splits)

lemma standardize_row_elt:
  assumes "rows2 M = rows2 A" "cols2 M = cols2 A" "rows2 S = rows2 A" "cols2 S = cols2 A"
  shows "\<exists>D Z. broadcast2 fsub A M = Inr D \<and> broadcast2 fdiv D S = Inr Z
       \<and> rows2 Z = rows2 A \<and> cols2 Z = cols2 A
       \<and> (\<forall>t<rows2 A. \<forall>c<cols2 A.
            elt2 Z t c = fdiv (fsub (elt2 A t c) (elt2 M t c)) (elt2 S t c))"
  using assms by (simp add: broadcast2_def bdim_same bidx_less)

lemma norm_index_less: "norm_index n index = Inr i \<Longrightarrow> i < n"
  by (auto simp: norm_index_def split: if_splits)

lemma getitem_ref_plain:
  assumes wf: "wf_view3 h v" and dims: "dims3 v = (n, l, k)"
    and idx: "norm_index n index = Inr i"
    and lab: "\<forall>ys. ds_y ds = Some ys \<longrightarrow> length ys = n"
    and st: "\<not> ds_standardize ds"
  shows "getitem_ref h v ds index =
           (Inr ([''X'' \<mapsto> TensorR (index_row v i)] ++
                 (case ds_y ds of None \<Rightarrow> Map.empty
                  | Some ys \<Rightarrow> [''y'' \<mapsto> LabelR (ys ! i)])), h)"
  using assms by (auto simp: getitem_ref_def split: option.splits)

lemma getitem_ref_standardized:
  assumes dims: "dims3 v = (n, l, k)"
    and idx: "norm_index n index = Inr i"
    and lab: "\<forall>ys. ds_y ds = Some ys \<longrightarrow> length ys = n"
    and st: "ds_standardize ds"
    and Z: "broadcast2 fsub (read2 h (index_row v i)) (feature_mean ds) = Inr D"
           "broadcast2 fdiv D (feature_std ds) = Inr Z"
  shows "getitem_ref h v ds index =
           (Inr ([''X'' \<mapsto> TensorR (fst (alloc2 h Z))] ++
                 (case ds_y ds of None \<Rightarrow> Map.empty
                  | Some ys \<Rightarrow> [''y'' \<mapsto> LabelR (ys ! i)])), snd (alloc2 h Z))"
  using assms by (auto simp: getitem_ref_def alloc2_def split: option.splits)

text \<open>
  C3, as stated, fails when standardization is off: the tensor returned under the key
  \<^verbatim>\<open>"X"\<close> is a view onto the storage of the dataset's own tensor, so an assignment to
  its element changes the stored \<open>X\<close> (and what the next access returns).
\<close>

theorem getitem_copy_counterexample:
  "getitem_ref ex_heap ex_view (ex_dataset False) 0
     = (Inr [''X'' \<mapsto> TensorR (index_row ex_view 0), ''y'' \<mapsto> LabelR 0], ex_heap)
   \<and> base2 (index_row ex_view 0) = base3 ex_view
   \<and> setitem2 ex_heap (index_row ex_view 0) 0 0 (Some 7) = Inr [[Some 7, Some 2]]
   \<and> elt (read3 ex_heap ex_view) 0 0 0 = Some 1
   \<and> elt (read3 [[Some 7, Some 2]] ex_view) 0 0 0 = Some 7
   \<and> elt2 (read2 [[Some 7, Some 2]] (index_row ex_view 0)) 0 0 = Some 7"
  by (simp add: getitem_ref_def ex_heap_def ex_view_def ex_dataset_def DiffusionDataset_init_def Let_def
      norm_index_def index_row_def setitem2_def read3_def read2_def addr2_def addr3_def)

text \<open>
  C3, amended. Take a dataset whose tensor \<open>X\<close> is stored under a well-formed view, and a
  valid index, and suppose that the labels, when present, are as many as the samples and
  that the statistics, when standardization is on, have the shape of one sample (sequence
  length and channel count of \<open>X\<close>, as when the reference tensor is \<open>X\<close> itself); otherwise
  the access can raise. Then the access succeeds, and the label \<open>y[index]\<close> is under the
  key \<^verbatim>\<open>"y"\<close> exactly when labels are present. With standardization on, the value under
  \<^verbatim>\<open>"X"\<close> is \<open>(X[index] - feature_mean) / feature_std\<close> element by element and lives in a
  new storage: it does not alias \<open>X\<close>, and assigning to it leaves the stored \<open>X\<close> unchanged.
  With standardization off, the value is \<open>X[index]\<close> itself, a view onto the storage of
  \<open>X\<close>: the heap is unchanged, and assigning to an element of the returned tensor assigns
  to that element of \<open>X\<close>.
\<close>

theorem getitem_ref_sharing:
  assumes wf: "wf_view3 h v" and dims: "dims3 v = (n, l, k)"
    and idx: "norm_index n index = Inr i"
    and lab: "\<forall>ys. ds_y ds = Some ys \<longrightarrow> length ys = n"
    and st: "ds_standardize ds \<longrightarrow>
               rows2 (feature_mean ds) = l \<and> cols2 (feature_mean ds) = k \<and>
               rows2 (feature_std ds) = l \<and> cols2 (feature_std ds) = k"
  shows "\<exists>s x h'. getitem_ref h v ds index = (Inr s, h')
      \<and> s ''X'' = Some (TensorR x)
      \<and> s ''y'' = map_option (\<lambda>ys. LabelR (ys ! i)) (ds_y ds)
      \<and> dims2 x = (l, k)
      \<and> (\<forall>t<l. \<forall>c<k. elt2 (read2 h' x) t c =
            (if ds_standardize ds
             then fdiv (fsub (elt (read3 h v) i t c) (elt2 (feature_mean ds) t c))
                       (elt2 (feature_std ds) t c)
             else elt (read3 h v) i t c))
      \<and> (ds_standardize ds \<longrightarrow>
            base2 x \<noteq> base3 v \<and> read3 h' v = read3 h v
            \<and> (\<forall>t c a h''. setitem2 h' x t c a = Inr h'' \<longrightarrow> read3 h'' v = read3 h v))
      \<and> (\<not> ds_standardize ds \<longrightarrow>
            h' = h \<and> base2 x = base3 v
            \<and> (\<forall>t<l. \<forall>c<k. \<forall>a. \<exists>h''. setitem2 h x t c a = Inr h''
                         \<and> elt (read3 h'' v) i t c = a))"
proof (cases "ds_standardize ds")
  case False
  have i: "i < n" using idx by (rule norm_index_less)
  let ?x = "index_row v i"
  let ?s = "[''X'' \<mapsto> TensorR ?x] ++
            (case ds_y ds of None \<Rightarrow> Map.empty | Some ys \<Rightarrow> [''y'' \<mapsto> LabelR (ys ! i)])"
  have g: "getitem_ref h v ds index = (Inr ?s, h)"
    using getitem_ref_plain [OF wf dims idx lab False] .
  have sX: "?s ''X'' = Some (TensorR ?x)" by (simp split: option.splits)
  have sy: "?s ''y'' = map_option (\<lambda>ys. LabelR (ys ! i)) (ds_y ds)"
    by (simp split: option.splits)
  have dx: "dims2 ?x = (l, k)" using dims by (simp add: index_row_def split: prod.splits)
  have rd: "\<forall>t<l. \<forall>c<k. elt2 (read2 h ?x) t c = elt (read3 h v) i t c"
    using dims by (simp add: read2_index_row row_def)
  have wr: "\<forall>t<l. \<forall>c<k. \<forall>a. \<exists>h''. setitem2 h ?x t c a = Inr h''
              \<and> elt (read3 h'' v) i t c = a"
  proof (intro allI impI)
    fix t c a assume t: "t < l" and c: "c < k"
    have a2: "addr2 ?x t c = addr3 v i t c"
      using dims by (simp add: index_row_def addr2_def addr3_def split: prod.splits)
    have b: "base3 v < length h" and inb: "addr3 v i t c < length (h ! base3 v)"
      using wf dims i t c by (auto simp: wf_view3_def)
    have bx: "base2 ?x = base3 v" using dims by (simp add: index_row_def split: prod.splits)
    show "\<exists>h''. setitem2 h ?x t c a = Inr h'' \<and> elt (read3 h'' v) i t c = a"
      using t c dx a2 b inb bx dims by (simp add: setitem2_def read3_def)
  qed
  have bx: "base2 ?x = base3 v" using dims by (simp add: index_row_def split: prod.splits)
  show ?thesis
  proof (intro exI conjI)
    show "getitem_ref h v ds index = (Inr ?s, h)" by (rule g)
    show "?s ''X'' = Some (TensorR ?x)" by (rule sX)
    show "?s ''y'' = map_option (\<lambda>ys. LabelR (ys ! i)) (ds_y ds)" by (rule sy)
    show "dims2 ?x = (l, k)" by (rule dx)
    show "\<forall>t<l. \<forall>c<k. elt2 (read2 h ?x) t c =
            (if ds_standardize ds
             then fdiv (fsub (elt (read3 h v) i t c) (elt2 (feature_mean ds) t c))
                       (elt2 (feature_std ds) t c)
             else elt (read3 h v) i t c)"
      using rd False by simp
    show "ds_standardize ds \<longrightarrow>
            base2 ?x \<noteq> base3 v \<and> read3 h v = read3 h v
            \<and> (\<forall>t c a h''. setitem2 h ?x t c a = Inr h'' \<longrightarrow> read3 h'' v = read3 h v)"
      using False by simp
    show "\<not> ds_standardize ds \<longrightarrow>
            h = h \<and> base2 ?x = base3 v
            \<and> (\<forall>t<l. \<forall>c<k. \<forall>a. \<exists>h''. setitem2 h ?x t c a = Inr h''
                         \<and> elt (read3 h'' v) i t c = a)"
      using wr bx by simp
  qed
next
  case True
  have i: "i < n" using idx by (rule norm_index_less)
  have b: "base3 v < length h" using wf by (simp add: wf_view3_def)
  let ?A = "read2 h (index_row v i)"
  have A: "?A = row (read3 h v) i" using dims by (rule read2_index_row)
  have rA: "rows2 ?A = l" "cols2 ?A = k"
    using dims by (simp_all add: A row_def read3_def)
  obtain D Z where D: "broadcast2 fsub ?A (feature_mean ds) = Inr D"
    and Z: "broadcast2 fdiv D (feature_std ds) = Inr Z"
    and rZ: "rows2 Z = l" "cols2 Z = k"
    and eZ: "\<forall>t<l. \<forall>c<k. elt2 Z t c =
               fdiv (fsub (elt2 ?A t c) (elt2 (feature_mean ds) t c)) (elt2 (feature_std ds) t c)"
    using standardize_row_elt [of "feature_mean ds" ?A "feature_std ds"] st True rA
    by auto
  let ?x = "fst (alloc2 h Z)" and ?h = "snd (alloc2 h Z)"
  let ?s = "[''X'' \<mapsto> TensorR ?x] ++
            (case ds_y ds of None \<Rightarrow> Map.empty | Some ys \<Rightarrow> [''y'' \<mapsto> LabelR (ys ! i)])"
  have g: "getitem_ref h v ds index = (Inr ?s, ?h)"
    using getitem_ref_standardized [OF dims idx lab True D Z] .
  have sX: "?s ''X'' = Some (TensorR ?x)" by (simp split: option.splits)
  have sy: "?s ''y'' = map_option (\<lambda>ys. LabelR (ys ! i)) (ds_y ds)"
    by (simp split: option.splits)
  have dx: "dims2 ?x = (l, k)" using rZ by (simp add: alloc2_def)
  have rd: "\<forall>t<l. \<forall>c<k. elt2 (read2 ?h ?x) t c =
              fdiv (fsub (elt (read3 h v) i t c) (elt2 (feature_mean ds) t c))
                   (elt2 (feature_std ds) t c)"
    using eZ rZ read2_alloc2 [of _ Z _ h] by (simp add: A row_def)
  have bx: "base2 ?x \<noteq> base3 v" using b by (simp add: alloc2_def)
  have keep: "read3 ?h v = read3 h v"
    using read3_other_storage(2) [OF b] by (simp add: alloc2_def)
  have wr: "\<forall>t c a h''. setitem2 ?h ?x t c a = Inr h'' \<longrightarrow> read3 h'' v = read3 h v"
    using read3_other_storage(1) [OF b]
    by (auto simp: setitem2_def alloc2_def split: if_splits)
  show ?thesis
  proof (intro exI conjI)
    show "getitem_ref h v ds index = (Inr ?s, ?h)" by (rule g)
    show "?s ''X'' = Some (TensorR ?x)" by (rule sX)
    show "?s ''y'' = map_option (\<lambda>ys. LabelR (ys ! i)) (ds_y ds)" by (rule sy)
    show "dims2 ?x = (l, k)" by (rule dx)
    show "\<forall>t<l. \<forall>c<k. elt2 (read2 ?h ?x) t c =
            (if ds_standardize ds
             then fdiv (fsub (elt (read3 h v) i t c) (elt2 (feature_mean ds) t c))
                       (elt2 (feature_std ds) t c)
             else elt (read3 h v) i t c)"
      using rd True by simp
    show "ds_standardize ds \<longrightarrow>
            base2 ?x \<noteq> base3 v \<and> read3 ?h v = read3 h v
            \<and> (\<forall>t c a h''. setitem2 ?h ?x t c a = Inr h'' \<longrightarrow> read3 h'' v = read3 h v)"
      using bx keep wr by simp
    show "\<not> ds_standardize ds \<longrightarrow>
            ?h = h \<and> base2 ?x = base3 v
            \<and> (\<forall>t<l. \<forall>c<k. \<forall>a. \<exists>h''. setitem2 h ?x t c a = Inr h''
                         \<and> elt (read3 h'' v) i t c = a)"
      using True by simp
  qed
qed

theorem getitem_ref_sharing_witness:
  "wf_view3 ex_heap ex_view \<and> norm_index 2 1 = Inr 1
   \<and> (\<exists>s x h'. getitem_ref ex_heap ex_view (ex_dataset True) 1 = (Inr s, h')
        \<and> s ''X'' = Some (TensorR x) \<and> s ''y'' = Some (LabelR 1)
        \<and> base2 x \<noteq> base3 ex_view \<and> read3 h' ex_view = read3 ex_heap ex_view)"
proof -
  have wf: "wf_view3 ex_heap ex_view"
    by (simp add: wf_view3_def ex_heap_def ex_view_def addr3_def)
  have dims: "dims3 ex_view = (2, 1, 1)" by (simp add: ex_view_def)
  have idx: "norm_index 2 1 = Inr 1" by (simp add: norm_index_def)
  have lab: "\<forall>ys. ds_y (ex_dataset True) = Some ys \<longrightarrow> length ys = 2"
    by (simp add: ex_dataset_def DiffusionDataset_init_def Let_def)
  have st: "ds_standardize (ex_dataset True) \<longrightarrow>
               rows2 (feature_mean (ex_dataset True)) = 1 \<and> cols2 (feature_mean (ex_dataset True)) = 1 \<and>
               rows2 (feature_std (ex_dataset True)) = 1 \<and> cols2 (feature_std (ex_dataset True)) = 1"
    by (simp add: ex_dataset_def DiffusionDataset_init_def Let_def mean_dim0_def std_dim0_def
        read3_def ex_view_def)
  have y: "ds_y (ex_dataset True) = Some [0, 1]" "ds_standardize (ex_dataset True)"
    by (simp_all add: ex_dataset_def DiffusionDataset_init_def Let_def)
  from getitem_ref_sharing [OF wf dims idx lab st] y wf idx show ?thesis
    by auto
qed

subsection \<open>Standardizing a dataset against its own statistics\<close>











lemma ex_ramp_column:
  "column0 (ex_ramp l k) t c
     = [Some 0, Some (real (Suc c * Suc t)), Some (2 * real (Suc c * Suc t))]"
  by (simp add: column0_def ex_ramp_def upt_conv_Cons numeral_3_eq_3)

lemma ex_ramp_mean: "tmean [Some 0, Some (real a), Some (2 * real a)] = Some (real a)"
  by (simp add: tmean_def fdiv_def)

lemma ex_ramp_std: "tstd [Some 0, Some (real a), Some (2 * real a)] = Some (real a)"
  by (simp add: tstd_def tmean_def fdiv_def fsqrt_def power2_eq_square algebra_simps)

lemma ex_ramp_slot_std: "elt2 (std_dim0 (ex_ramp l k)) t c = Some (real (Suc c * Suc t))"
  by (simp only: std_dim0_def tensor2.select_convs ex_ramp_column ex_ramp_std)

lemma ex_ramp_slot_mean: "elt2 (mean_dim0 (ex_ramp l k)) t c = Some (real (Suc c * Suc t))"
  by (simp only: mean_dim0_def tensor2.select_convs ex_ramp_column ex_ramp_mean)















subsection \<open>The MIMIC-III adapter has nothing to download\<close>

text \<open>
  C9, as stated of the data-availability step \<^verbatim>\<open>prepare_data\<close>, fails: when the
  namespaced directory exists and the raw file \<^verbatim>\<open>all_hourly_data.h5\<close> is not in it,
  \<^verbatim>\<open>prepare_data\<close> returns normally, without any error and without checking for the file.
\<close>

theorem mimic_prepare_data_counterexample:
  "\<not> path_exists (fs ex_world_empty_dir) (data_dir ex_mimic @ [''all_hourly_data.h5''])
   \<and> prepare_data ex_collab ex_mimic ex_world_empty_dir = (Inr (), ex_world_empty_dir)"
  by (simp add: ex_world_empty_dir_def ex_mimic_def Datamodule_init_def prepare_data_def
      path_exists_def)

lemma ancestors_length: "q \<in> set (ancestors p) \<Longrightarrow> length q \<le> length p"
  by (auto simp: ancestors_def)

lemma makedirs_child:
  assumes "makedirs p f = Inr f'"
  shows "f' (p @ [x]) = f (p @ [x])"
proof -
  have "p @ [x] \<notin> set (ancestors p)" using ancestors_length [of "p @ [x]" p] by auto
  then show ?thesis using assms by (auto simp: makedirs_def split: if_splits)
qed

text \<open>
  C9, amended. For the MIMIC-III adapter the fetch routine \<^verbatim>\<open>download_data\<close> is a check:
  it fails with the assertion error whose message tells the user to obtain the dataset
  when \<^verbatim>\<open>all_hourly_data.h5\<close> is absent from the namespaced directory, succeeds when the
  file is present, and in both cases leaves the file system as it was. \<^verbatim>\<open>prepare_data\<close>
  runs this check only when the namespaced directory is absent: it then creates the
  directory and fails with that error; when the directory exists it does nothing,
  whether or not the file is there.
\<close>

theorem mimic_fetch_check:
  assumes k: "kind m = MIMICIII n"
  shows "(\<not> path_exists (fs w) (data_dir m @ [''all_hourly_data.h5'']) \<longrightarrow>
            fst (download_data E m w)
              = Inl (AssertionError (mimic_message (data_dir m @ [''all_hourly_data.h5'']))))
       \<and> (path_exists (fs w) (data_dir m @ [''all_hourly_data.h5'']) \<longrightarrow>
            fst (download_data E m w) = Inr ())
       \<and> fs (snd (download_data E m w)) = fs w
       \<and> (path_exists (fs w) (data_dir m) \<longrightarrow> prepare_data E m w = (Inr (), w))
       \<and> (\<forall>f'. \<not> path_exists (fs w) (data_dir m)
               \<and> \<not> path_exists (fs w) (data_dir m @ [''all_hourly_data.h5''])
               \<and> makedirs (data_dir m) (fs w) = Inr f' \<longrightarrow>
            fst (prepare_data E m w)
              = Inl (AssertionError (mimic_message (data_dir m @ [''all_hourly_data.h5'']))))"
proof -
  have d: "download_data E m w
             = MIMICIII_download_data m (w\<lparr>calls := calls w @ [FetchCall ''mimiciii'']\<rparr>)" for w
    by (simp add: download_data_def k)
  have 1: "\<not> path_exists (fs w) (data_dir m @ [''all_hourly_data.h5'']) \<longrightarrow>
            fst (download_data E m w)
              = Inl (AssertionError (mimic_message (data_dir m @ [''all_hourly_data.h5''])))"
    by (simp add: d MIMICIII_download_data_def)
  have 2: "path_exists (fs w) (data_dir m @ [''all_hourly_data.h5'']) \<longrightarrow>
            fst (download_data E m w) = Inr ()"
    by (simp add: d MIMICIII_download_data_def)
  have 3: "fs (snd (download_data E m w)) = fs w"
    by (simp add: d MIMICIII_download_data_def Let_def)
  have 4: "path_exists (fs w) (data_dir m) \<longrightarrow> prepare_data E m w = (Inr (), w)"
    by (simp add: prepare_data_def)
  have 5: "fst (prepare_data E m w)
              = Inl (AssertionError (mimic_message (data_dir m @ [''all_hourly_data.h5''])))"
    if a: "\<not> path_exists (fs w) (data_dir m)"
      and b: "\<not> path_exists (fs w) (data_dir m @ [''all_hourly_data.h5''])"
      and c: "makedirs (data_dir m) (fs w) = Inr f'" for f'
  proof -
    have "\<not> path_exists f' (data_dir m @ [''all_hourly_data.h5''])"
      using makedirs_child [OF c] b by (simp add: path_exists_def)
    then show ?thesis using a c
      by (simp add: prepare_data_def d MIMICIII_download_data_def)
  qed
  from 1 2 3 4 5 show ?thesis by blast
qed

theorem mimic_fetch_check_witness:
  "\<not> path_exists (fs ex_world_no_dir) (data_dir ex_mimic)
   \<and> \<not> path_exists (fs ex_world_no_dir) (data_dir ex_mimic @ [''all_hourly_data.h5''])
   \<and> fst (prepare_data ex_collab ex_mimic ex_world_no_dir)
       = Inl (AssertionError (mimic_message [''data'', ''mimiciii'', ''all_hourly_data.h5'']))"
proof -
  have k: "kind ex_mimic = MIMICIII 40" and dir: "data_dir ex_mimic = [''data'', ''mimiciii'']"
    by (simp_all add: ex_mimic_def Datamodule_init_def)
  have a: "\<not> path_exists (fs ex_world_no_dir) (data_dir ex_mimic)"
    and b: "\<not> path_exists (fs ex_world_no_dir) (data_dir ex_mimic @ [''all_hourly_data.h5''])"
    by (simp_all add: dir ex_world_no_dir_def path_exists_def)
  have c: "\<exists>f'. makedirs (data_dir ex_mimic) (fs ex_world_no_dir) = Inr f'"
    by (simp add: dir ex_world_no_dir_def makedirs_def path_exists_def ancestors_def upt_rec)
  from mimic_fetch_check [OF k, of ex_world_no_dir ex_collab] a b c show ?thesis
    by (auto simp: dir)
qed

subsection \<open>Fetching and preprocessing happen only when the data are absent\<close>

lemma kaggle_fetch_calls: "calls (snd (kaggle_fetch E name m w)) = calls w"
  by (simp add: kaggle_fetch_def split: prod.splits option.splits)

lemma Synthetic_download_data_calls:
  "calls (snd (Synthetic_download_data E a b m w)) = calls w"
  by (simp add: Synthetic_download_data_def Let_def split: sum.splits)

lemma download_data_calls:
  "calls (snd (download_data E m w)) = calls w @ [FetchCall (dataset_name (kind m))]"
  by (cases "kind m")
     (simp_all add: download_data_def kaggle_fetch_calls Synthetic_download_data_calls
        MIMICIII_download_data_def Let_def)

lemma preprocess_if_missing_cached:
  "cached (fs w) dir \<Longrightarrow> preprocess_if_missing prep name dir w = (Inr (), w)"
  by (simp add: preprocess_if_missing_def cached_def)

lemma preprocess_if_missing_calls:
  "\<not> cached (fs w) dir \<Longrightarrow>
     calls (snd (preprocess_if_missing prep name dir w)) = calls w @ [PreprocessCall name]"
  by (auto simp: preprocess_if_missing_def cached_def split: prod.splits option.splits)

lemma after_cache_world: "snd (after_cache r load) = snd r"
  by (simp add: after_cache_def split: prod.splits sum.splits)

text \<open>
  C5. Data preparation is idempotent. When the namespaced directory exists,
  \<^verbatim>\<open>prepare_data\<close> returns at once and leaves the world, trace included, as it was: the
  fetch routine is not invoked. When the directory is absent (and can be created) the
  fetch routine is invoked, exactly once. So a repeated call, made once the directory
  exists, does nothing. In \<^verbatim>\<open>setup\<close>, the ECG and synthetic adapters never invoke a fetch or
  preprocessing routine; each of the other four invokes its preprocessing routine exactly
  when one of the cached files \<^verbatim>\<open>X_train.pt\<close>, \<^verbatim>\<open>X_test.pt\<close> is missing, and leaves the world
  untouched when both exist.
\<close>

theorem fetch_only_when_absent:
  "(path_exists (fs w) (data_dir m) \<longrightarrow> prepare_data E m w = (Inr (), w))
   \<and> (\<forall>f'. \<not> path_exists (fs w) (data_dir m) \<and> makedirs (data_dir m) (fs w) = Inr f' \<longrightarrow>
          prepare_data E m w = download_data E m (w\<lparr>fs := f'\<rparr>)
          \<and> calls (snd (prepare_data E m w)) = calls w @ [FetchCall (dataset_name (kind m))])
   \<and> (path_exists (fs (snd (prepare_data E m w))) (data_dir m) \<longrightarrow>
          prepare_data E m (snd (prepare_data E m w)) = (Inr (), snd (prepare_data E m w)))
   \<and> (\<forall>a b c. kind m = ECG a b c \<longrightarrow> snd (setup_module E m w) = w)
   \<and> (\<forall>a b. kind m = Synthetic a b \<longrightarrow> snd (setup_module E m w) = w)
   \<and> (\<forall>n. kind m = MIMICIII n \<longrightarrow>
          (cached (fs w) (data_dir m) \<longrightarrow> snd (setup_module E m w) = w)
        \<and> (\<not> cached (fs w) (data_dir m) \<longrightarrow>
              calls (snd (setup_module E m w)) = calls w @ [PreprocessCall ''mimiciii'']))
   \<and> (kind m = NASDAQ \<longrightarrow>
          (cached (fs w) (data_dir m) \<longrightarrow> snd (setup_module E m w) = w)
        \<and> (\<not> cached (fs w) (data_dir m) \<longrightarrow>
              calls (snd (setup_module E m w)) = calls w @ [PreprocessCall ''nasdaq'']))
   \<and> (\<forall>sub r. kind m = NASA sub r \<longrightarrow>
          (cached (fs w) (data_dir m @ [sub]) \<longrightarrow> snd (setup_module E m w) = w)
        \<and> (\<not> cached (fs w) (data_dir m @ [sub]) \<longrightarrow>
              calls (snd (setup_module E m w)) = calls w @ [PreprocessCall ''nasa'']))
   \<and> (kind m = USDroughts \<longrightarrow>
          (cached (fs w) (data_dir m) \<longrightarrow> snd (setup_module E m w) = w)
        \<and> (\<not> cached (fs w) (data_dir m) \<longrightarrow>
              calls (snd (setup_module E m w)) = calls w @ [PreprocessCall ''droughts'']))"
proof -
  have 1: "path_exists (fs w) (data_dir m) \<longrightarrow> prepare_data E m w = (Inr (), w)" for w
    by (simp add: prepare_data_def)
  have 2: "\<forall>f'. \<not> path_exists (fs w) (data_dir m) \<and> makedirs (data_dir m) (fs w) = Inr f' \<longrightarrow>
          prepare_data E m w = download_data E m (w\<lparr>fs := f'\<rparr>)
          \<and> calls (snd (prepare_data E m w)) = calls w @ [FetchCall (dataset_name (kind m))]"
    by (simp add: prepare_data_def download_data_calls)
  have 4: "\<forall>a b c. kind m = ECG a b c \<longrightarrow> snd (setup_module E m w) = w"
    and 5: "\<forall>a b. kind m = Synthetic a b \<longrightarrow> snd (setup_module E m w) = w"
    by (simp_all add: setup_module_def)
  have 6: "\<forall>n. kind m = MIMICIII n \<longrightarrow>
          (cached (fs w) (data_dir m) \<longrightarrow> snd (setup_module E m w) = w)
        \<and> (\<not> cached (fs w) (data_dir m) \<longrightarrow>
              calls (snd (setup_module E m w)) = calls w @ [PreprocessCall ''mimiciii''])"
    by (simp add: setup_module_def after_cache_world preprocess_if_missing_cached
        preprocess_if_missing_calls)
  have 7: "kind m = NASDAQ \<longrightarrow>
          (cached (fs w) (data_dir m) \<longrightarrow> snd (setup_module E m w) = w)
        \<and> (\<not> cached (fs w) (data_dir m) \<longrightarrow>
              calls (snd (setup_module E m w)) = calls w @ [PreprocessCall ''nasdaq''])"
    by (simp add: setup_module_def after_cache_world preprocess_if_missing_cached
        preprocess_if_missing_calls)
  have 8: "\<forall>sub r. kind m = NASA sub r \<longrightarrow>
          (cached (fs w) (data_dir m @ [sub]) \<longrightarrow> snd (setup_module E m w) = w)
        \<and> (\<not> cached (fs w) (data_dir m @ [sub]) \<longrightarrow>
              calls (snd (setup_module E m w)) = calls w @ [PreprocessCall ''nasa''])"
    by (simp add: setup_module_def after_cache_world preprocess_if_missing_cached
        preprocess_if_missing_calls)
  have 9: "kind m = USDroughts \<longrightarrow>
          (cached (fs w) (data_dir m) \<longrightarrow> snd (setup_module E m w) = w)
        \<and> (\<not> cached (fs w) (data_dir m) \<longrightarrow>
              calls (snd (setup_module E m w)) = calls w @ [PreprocessCall ''droughts''])"
    by (simp add: setup_module_def after_cache_world preprocess_if_missing_cached
        preprocess_if_missing_calls)
  from 1 [of w] 1 [of "snd (prepare_data E m w)"] 2 4 5 6 7 8 9 show ?thesis
    by (intro conjI) assumption+
qed

theorem fetch_only_when_absent_witness:
  "calls (snd (prepare_data ex_collab ex_synthetic ex_world_no_dir)) = [FetchCall ''synthetic'']
   \<and> prepare_data ex_collab ex_synthetic (snd (prepare_data ex_collab ex_synthetic ex_world_no_dir))
       = (Inr (), snd (prepare_data ex_collab ex_synthetic ex_world_no_dir))
   \<and> snd (setup_module ex_collab ex_mimic (ex_cache [''data'', ''mimiciii''] ex_tensor ex_tensor))
       = ex_cache [''data'', ''mimiciii''] ex_tensor ex_tensor
   \<and> calls (snd (setup_module ex_collab ex_mimic ex_world_no_dir)) = [PreprocessCall ''mimiciii'']"
proof -
  have k: "kind ex_synthetic = Synthetic 100 1000"
    and dir: "data_dir ex_synthetic = [''data'', ''synthetic'']"
    by (simp_all add: ex_synthetic_def Datamodule_init_def)
  have km: "kind ex_mimic = MIMICIII 40" and dirm: "data_dir ex_mimic = [''data'', ''mimiciii'']"
    by (simp_all add: ex_mimic_def Datamodule_init_def)
  have a: "\<not> path_exists (fs ex_world_no_dir) (data_dir ex_synthetic)"
    by (simp add: dir ex_world_no_dir_def path_exists_def)
  define f' where "f' = [[''data''] \<mapsto> Dir, [''data'', ''synthetic''] \<mapsto> Dir]"
  have mk: "makedirs (data_dir ex_synthetic) (fs ex_world_no_dir) = Inr f'"
    by (auto simp: dir ex_world_no_dir_def makedirs_def path_exists_def ancestors_def upt_rec f'_def)
  have after: "path_exists (fs (snd (prepare_data ex_collab ex_synthetic ex_world_no_dir)))
                 (data_dir ex_synthetic)"
    using a mk
    by (simp add: prepare_data_def download_data_def k Synthetic_download_data_def Let_def
        to_csv_def dir f'_def path_exists_def)
  have c: "cached (fs (ex_cache [''data'', ''mimiciii''] ex_tensor ex_tensor)) (data_dir ex_mimic)"
    by (simp add: cached_def ex_cache_def dirm path_exists_def)
  have nc: "\<not> cached (fs ex_world_no_dir) (data_dir ex_mimic)"
    by (simp add: cached_def ex_world_no_dir_def dirm path_exists_def)
  have c0: "calls ex_world_no_dir = []" by (simp add: ex_world_no_dir_def)
  note T = fetch_only_when_absent [of ex_world_no_dir ex_synthetic ex_collab]
  from T a mk
  have "calls (snd (prepare_data ex_collab ex_synthetic ex_world_no_dir))
          = calls ex_world_no_dir @ [FetchCall (dataset_name (kind ex_synthetic))]"
    by blast
  then have 1: "calls (snd (prepare_data ex_collab ex_synthetic ex_world_no_dir))
                  = [FetchCall ''synthetic'']"
    by (simp add: k c0)
  from T after
  have 2: "prepare_data ex_collab ex_synthetic (snd (prepare_data ex_collab ex_synthetic ex_world_no_dir))
       = (Inr (), snd (prepare_data ex_collab ex_synthetic ex_world_no_dir))"
    by blast
  from fetch_only_when_absent [of "ex_cache [''data'', ''mimiciii''] ex_tensor ex_tensor" ex_mimic ex_collab] c km
  have 3: "snd (setup_module ex_collab ex_mimic (ex_cache [''data'', ''mimiciii''] ex_tensor ex_tensor))
       = ex_cache [''data'', ''mimiciii''] ex_tensor ex_tensor"
    by blast
  from fetch_only_when_absent [of ex_world_no_dir ex_mimic ex_collab] nc km
  have "calls (snd (setup_module ex_collab ex_mimic ex_world_no_dir))
          = calls ex_world_no_dir @ [PreprocessCall ''mimiciii'']"
    by blast
  then have 4: "calls (snd (setup_module ex_collab ex_mimic ex_world_no_dir))
                  = [PreprocessCall ''mimiciii'']"
    by (simp add: c0)
  from 1 2 3 4 show ?thesis by simp
qed

subsection \<open>The synthetic adapter\<close>

text \<open>
  C7. For the synthetic adapter with \<open>max_len = 100\<close> and \<open>num_samples = 1000\<close>, run in its
  (existing) namespaced directory: \<^verbatim>\<open>download_data\<close> succeeds and writes \<^verbatim>\<open>train.csv\<close> and
  \<^verbatim>\<open>test.csv\<close>, each with exactly 1000 rows of length 100; \<^verbatim>\<open>setup\<close> then succeeds and yields
  an \<open>X_train\<close> (and an \<open>X_test\<close>) of shape \<open>(1000, 100, 1)\<close>, without labels, holding the
  generated sinusoids: the first 1000 in the training tensor, the other 1000 in the test
  tensor.
\<close>

theorem synthetic_fetch_and_setup:
  assumes k: "kind m = Synthetic 100 1000"
    and dir: "fs w (data_dir m) = Some Dir"
    and tr: "fs w (data_dir m @ [''train.csv'']) \<noteq> Some Dir"
    and te: "fs w (data_dir m @ [''test.csv'']) \<noteq> Some Dir"
  shows "\<exists>F G w1 m1. download_data E m w = (Inr (), w1)
     \<and> fs w1 (data_dir m @ [''train.csv'']) = Some (CsvFile F) \<and> f_rows F = 1000 \<and> f_cols F = 100
     \<and> fs w1 (data_dir m @ [''test.csv'']) = Some (CsvFile G) \<and> f_rows G = 1000 \<and> f_cols G = 100
     \<and> setup_module E m w1 = (Inr m1, w1)
     \<and> (n_rows (X_train m1), seq_len (X_train m1), n_chan (X_train m1)) = (1000, 100, 1)
     \<and> (n_rows (X_test m1), seq_len (X_test m1), n_chan (X_test m1)) = (1000, 100, 1)
     \<and> y_train m1 = None \<and> y_test m1 = None
     \<and> (\<forall>i<1000. \<forall>t<100.
           elt (X_train m1) i t 0 = Some (sin (real t * random_beta E i + random_normal E i))
         \<and> elt (X_test m1) i t 0
             = Some (sin (real t * random_beta E (1000 + i) + random_normal E (1000 + i))))"
proof -
  define X where "X = synthetic_X E 100 1000"
  define F where "F = rows_upto X 1000"
  define G where "G = rows_from X 1000"
  define w0 where "w0 = w\<lparr>calls := calls w @ [FetchCall ''synthetic'']\<rparr>"
  define f2 where "f2 = (fs w)(data_dir m @ [''train.csv''] \<mapsto> CsvFile F,
                              data_dir m @ [''test.csv''] \<mapsto> CsvFile G)"
  define w1 where "w1 = w0\<lparr>fs := f2\<rparr>"
  define m1 where "m1 = m\<lparr>X_train := frame_tensor F (f_cols F), y_train := None,
                           X_test := frame_tensor G (f_cols G), y_test := None\<rparr>"
  have FX: "f_rows F = 1000" "f_cols F = 100" "cell F = cell X"
    by (simp_all add: F_def X_def rows_upto_def synthetic_X_def slice_stop_def)
  have GX: "f_rows G = 1000" "f_cols G = 100" "cell G = (\<lambda>i. cell X (1000 + i))"
    by (simp_all add: G_def X_def rows_from_def synthetic_X_def slice_stop_def)
  have ne: "data_dir m @ [''train.csv''] \<noteq> data_dir m @ [''test.csv'']" by simp
  have csv1: "to_csv F (data_dir m @ [''train.csv'']) (fs w)
                = Inr ((fs w)(data_dir m @ [''train.csv''] \<mapsto> CsvFile F))"
    using dir tr by (simp add: to_csv_def)
  have csv2: "to_csv G (data_dir m @ [''test.csv''])
                 ((fs w)(data_dir m @ [''train.csv''] \<mapsto> CsvFile F)) = Inr f2"
    using dir te by (simp add: to_csv_def f2_def)
  have dl: "download_data E m w = (Inr (), w1)"
    using csv1 csv2
    by (simp add: download_data_def k Synthetic_download_data_def Let_def w1_def w0_def
        F_def [symmetric] G_def [symmetric] X_def [symmetric])
  have f1: "fs w1 (data_dir m @ [''train.csv'']) = Some (CsvFile F)"
    and f2: "fs w1 (data_dir m @ [''test.csv'']) = Some (CsvFile G)"
    by (simp_all add: w1_def f2_def)
  have st: "setup_module E m w1 = (Inr m1, w1)"
    by (simp add: setup_module_def k Synthetic_setup_def read_csv_def f1 f2 FX GX m1_def)
  have vals: "\<forall>i<1000. \<forall>t<100.
           elt (X_train m1) i t 0 = Some (sin (real t * random_beta E i + random_normal E i))
         \<and> elt (X_test m1) i t 0
             = Some (sin (real t * random_beta E (1000 + i) + random_normal E (1000 + i)))"
    by (simp add: m1_def frame_tensor_def FX GX) (simp add: X_def synthetic_X_def)
  have shp: "(n_rows (X_train m1), seq_len (X_train m1), n_chan (X_train m1)) = (1000, 100, 1)"
     "(n_rows (X_test m1), seq_len (X_test m1), n_chan (X_test m1)) = (1000, 100, 1)"
     "y_train m1 = None" "y_test m1 = None"
    by (simp_all add: m1_def frame_tensor_def FX GX)
  show ?thesis
  proof (intro exI conjI)
    show "download_data E m w = (Inr (), w1)" by (rule dl)
    show "fs w1 (data_dir m @ [''train.csv'']) = Some (CsvFile F)" by (rule f1)
    show "fs w1 (data_dir m @ [''test.csv'']) = Some (CsvFile G)" by (rule f2)
    show "setup_module E m w1 = (Inr m1, w1)" by (rule st)
  qed (use FX GX shp vals in simp_all)
qed

theorem synthetic_fetch_and_setup_witness:
  "\<exists>F G w1 m1. download_data ex_collab ex_synthetic ex_world_synthetic = (Inr (), w1)
     \<and> fs w1 [''data'', ''synthetic'', ''train.csv''] = Some (CsvFile F)
     \<and> f_rows F = 1000 \<and> f_cols F = 100
     \<and> fs w1 [''data'', ''synthetic'', ''test.csv''] = Some (CsvFile G)
     \<and> f_rows G = 1000 \<and> f_cols G = 100
     \<and> setup_module ex_collab ex_synthetic w1 = (Inr m1, w1)
     \<and> (n_rows (X_train m1), seq_len (X_train m1), n_chan (X_train m1)) = (1000, 100, 1)"
proof -
  have k: "kind ex_synthetic = Synthetic 100 1000"
    and dir: "data_dir ex_synthetic = [''data'', ''synthetic'']"
    by (simp_all add: ex_synthetic_def Datamodule_init_def)
  have a: "fs ex_world_synthetic (data_dir ex_synthetic) = Some Dir"
    and b: "fs ex_world_synthetic (data_dir ex_synthetic @ [''train.csv'']) \<noteq> Some Dir"
    and c: "fs ex_world_synthetic (data_dir ex_synthetic @ [''test.csv'']) \<noteq> Some Dir"
    by (simp_all add: dir ex_world_synthetic_def)
  from synthetic_fetch_and_setup [OF k a b c, of ex_collab] show ?thesis
    unfolding dir by auto
qed

subsection \<open>The pruning of the drought adapter\<close>

lemma load_pair_files:
  assumes "f (dir @ [''X_train.pt'']) = Some (PtFile A)" "f (dir @ [''X_test.pt'']) = Some (PtFile B)"
  shows "load_pair dir f = Inr (A, B)" and "cached f dir"
  using assms by (simp_all add: load_pair_def torch_load_def cached_def path_exists_def)

lemma ex_cache_files:
  "fs (ex_cache dir A B) (dir @ [''X_train.pt'']) = Some (PtFile A)"
  "fs (ex_cache dir A B) (dir @ [''X_test.pt'']) = Some (PtFile B)"
  by (simp_all add: ex_cache_def)

lemma drought_feats_less: "i \<in> set (drought_feats k) \<Longrightarrow> i < k"
  by (simp add: drought_feats_def)



lemma drought_feats_10: "drought_feats 10 = [0, 1, 2, 3, 8]"
  by code_simp



lemma select_channels_ok:
  assumes "\<forall>i\<in>set idx. i < n_chan T"
  shows "select_channels T idx = Inr \<lparr>n_rows = n_rows T, seq_len = seq_len T, n_chan = length idx,
                elt = (\<lambda>i t c. elt T i t (idx ! c))\<rparr>"
  using assms by (auto simp: select_channels_def list_ex_iff)

lemma USDroughts_setup_files:
  assumes k: "kind m = USDroughts"
    and A: "fs w (data_dir m @ [''X_train.pt'']) = Some (PtFile A)"
    and B: "fs w (data_dir m @ [''X_test.pt'']) = Some (PtFile B)"
  shows "setup_module E m w = (USDroughts_load m (fs w), w)"
  using load_pair_files(2) [OF A B]
  by (simp add: setup_module_def k after_cache_def preprocess_if_missing_def cached_def)

lemma USDroughts_load_ok:
  assumes A: "f (data_dir m @ [''X_train.pt'']) = Some (PtFile A)"
    and B: "f (data_dir m @ [''X_test.pt'']) = Some (PtFile B)"
    and ch: "n_chan A \<le> n_chan B"
    and sA: "seq_len A mod 365 = 0" and sB: "seq_len B mod 365 = 0"
  shows "USDroughts_load m f =
     Inr (m\<lparr>X_train := \<lparr>n_rows = n_rows A, seq_len = seq_len A,
                          n_chan = length (drought_feats (n_chan A)),
                          elt = (\<lambda>i t c. elt A i t (drought_feats (n_chan A) ! c))\<rparr>,
             X_test := \<lparr>n_rows = n_rows B, seq_len = seq_len B,
                         n_chan = length (drought_feats (n_chan A)),
                         elt = (\<lambda>i t c. elt B i t (drought_feats (n_chan A) ! c))\<rparr>\<rparr>)"
proof -
  have 1: "\<forall>i\<in>set (drought_feats (n_chan A)). i < n_chan A"
    by (simp add: drought_feats_less)
  then have 2: "\<forall>i\<in>set (drought_feats (n_chan A)). i < n_chan B"
    using ch by auto
  show ?thesis
    using sA sB
    by (simp add: USDroughts_load_def load_pair_files(1) [OF A B] Let_def
        select_channels_ok [OF 1] select_channels_ok [OF 2])
qed




subsection \<open>The channel selection of the MIMIC-III adapter\<close>

lemma key_desc_le: "key_desc a \<le> key_desc b \<longleftrightarrow> score_ge a b"
  by (auto simp: key_desc_def score_ge_def less_eq_prod_def split: option.splits)

lemma score_ge_refl: "score_ge a a"
  by (simp add: score_ge_def split: option.splits)

lemma argsort_desc_is_argsort: "is_argsort_desc xs (argsort_desc xs)"
proof -
  have "sorted (map (\<lambda>i. key_desc (xs ! i)) (argsort_desc xs))"
    by (simp add: argsort_desc_def)
  then have "sorted_wrt (\<lambda>i j. score_ge (xs ! i) (xs ! j)) (argsort_desc xs)"
    by (simp add: sorted_map key_desc_le)
  then show ?thesis by (simp add: is_argsort_desc_def argsort_desc_def)
qed

lemma ex_collab_argsort: "is_argsort_desc xs (torch_argsort ex_collab True xs)"
  by (simp add: ex_collab_def argsort_desc_is_argsort)

lemma is_argsort_desc_length: "is_argsort_desc xs idx \<Longrightarrow> length idx = length xs"
  using distinct_card [of idx] by (simp add: is_argsort_desc_def)

lemma slice_stop_le: "slice_stop n k \<le> n"
  by (auto simp: slice_stop_def)

lemma slice_stop_nonneg: "0 \<le> k \<Longrightarrow> slice_stop n k = min (nat k) n"
  by (simp add: slice_stop_def)

lemma mimic_scores_length: "length (mimic_scores T) = n_chan T"
  by (simp add: mimic_scores_def)

lemma top_feats_length:
  assumes "is_argsort_desc (mimic_scores T) (torch_argsort E True (mimic_scores T))"
  shows "length (top_feats E T n) = slice_stop (n_chan T) n"
  using is_argsort_desc_length [OF assms]
  by (simp add: top_feats_def Let_def mimic_scores_length slice_stop_le)

lemma top_feats_set:
  assumes "is_argsort_desc (mimic_scores T) (torch_argsort E True (mimic_scores T))"
  shows "set (top_feats E T n) \<subseteq> {0..<n_chan T}"
proof -
  have "set (top_feats E T n) \<subseteq> set (torch_argsort E True (mimic_scores T))"
    unfolding top_feats_def Let_def by (rule set_take_subset)
  then show ?thesis using assms by (simp add: is_argsort_desc_def mimic_scores_length)
qed

lemma top_feats_distinct:
  assumes "is_argsort_desc (mimic_scores T) (torch_argsort E True (mimic_scores T))"
  shows "distinct (top_feats E T n)"
  using assms by (simp add: top_feats_def Let_def is_argsort_desc_def)

lemma top_feats_descending:
  assumes R: "is_argsort_desc (mimic_scores T) (torch_argsort E True (mimic_scores T))"
    and jl: "j \<le> l" "l < length (top_feats E T n)"
  shows "score_ge (mimic_scores T ! (top_feats E T n ! j)) (mimic_scores T ! (top_feats E T n ! l))"
proof (cases "j = l")
  case True
  then show ?thesis by (simp add: score_ge_refl)
next
  case False
  have "sorted_wrt (\<lambda>i j. score_ge (mimic_scores T ! i) (mimic_scores T ! j)) (top_feats E T n)"
    using R by (simp add: top_feats_def Let_def is_argsort_desc_def sorted_wrt_take)
  then show ?thesis using False jl by (auto simp: sorted_wrt_iff_nth_less)
qed

lemma top_feats_best:
  assumes R: "is_argsort_desc (mimic_scores T) (torch_argsort E True (mimic_scores T))"
    and c: "c \<in> set (top_feats E T n)"
    and c': "c' \<in> {0..<n_chan T} - set (top_feats E T n)"
  shows "score_ge (mimic_scores T ! c) (mimic_scores T ! c')"
proof -
  let ?L = "torch_argsort E True (mimic_scores T)"
  let ?k = "slice_stop (length ?L) n"
  have "c' \<in> set ?L" using c' R by (simp add: is_argsort_desc_def mimic_scores_length)
  then have "c' \<in> set (take ?k ?L) \<union> set (drop ?k ?L)"
    by (simp only: set_append [symmetric] append_take_drop_id)
  then have d: "c' \<in> set (drop ?k ?L)" using c' by (simp add: top_feats_def Let_def)
  have "sorted_wrt (\<lambda>i j. score_ge (mimic_scores T ! i) (mimic_scores T ! j))
          (take ?k ?L @ drop ?k ?L)"
    using R by (simp add: is_argsort_desc_def)
  then show ?thesis
    using c d unfolding sorted_wrt_append by (auto simp: top_feats_def Let_def)
qed

lemma MIMICIII_setup_files:
  assumes k: "kind m = MIMICIII n"
    and A: "fs w (data_dir m @ [''X_train.pt'']) = Some (PtFile A)"
    and B: "fs w (data_dir m @ [''X_test.pt'']) = Some (PtFile B)"
  shows "setup_module E m w = (MIMICIII_load E n m (fs w), w)"
  using load_pair_files(2) [OF A B]
  by (simp add: setup_module_def k after_cache_def preprocess_if_missing_def cached_def)

lemma MIMICIII_load_ok:
  assumes R: "is_argsort_desc (mimic_scores A) (torch_argsort E True (mimic_scores A))"
    and A: "f (data_dir m @ [''X_train.pt'']) = Some (PtFile A)"
    and B: "f (data_dir m @ [''X_test.pt'']) = Some (PtFile B)"
    and ch: "n_chan A \<le> n_chan B"
  shows "MIMICIII_load E n m f =
     Inr (m\<lparr>X_train := \<lparr>n_rows = n_rows A, seq_len = seq_len A,
                          n_chan = slice_stop (n_chan A) n,
                          elt = (\<lambda>i t c. elt A i t (top_feats E A n ! c))\<rparr>,
             X_test := \<lparr>n_rows = n_rows B, seq_len = seq_len B,
                         n_chan = slice_stop (n_chan A) n,
                         elt = (\<lambda>i t c. elt B i t (top_feats E A n ! c))\<rparr>\<rparr>)"
proof -
  have 1: "\<forall>i\<in>set (top_feats E A n). i < n_chan A"
    using top_feats_set [OF R, of n] by auto
  then have 2: "\<forall>i\<in>set (top_feats E A n). i < n_chan B"
    using ch by auto
  show ?thesis
    by (simp add: MIMICIII_load_def load_pair_files(1) [OF A B] Let_def
        select_channels_ok [OF 1] select_channels_ok [OF 2] top_feats_length [OF R])
qed

lemma ex_ranked_scores: "mimic_scores ex_ranked = [Some 1, Some 2, Some 3]"
proof -
  have d: "seq_len ex_ranked = 1" "n_chan ex_ranked = 3"
    by (simp_all add: ex_ranked_def ex_ramp_def)
  have s: "elt2 (std_dim0 ex_ranked) 0 c = Some (real (Suc c))" for c
    by (simp add: ex_ranked_def ex_ramp_slot_std)
  show ?thesis
    unfolding mimic_scores_def d
    by (simp add: s tmean_def fdiv_def upt_conv_Cons numeral_3_eq_3)
qed

lemma ex_ranked_argsort: "argsort_desc [Some 1, Some 2, Some 3] = [2, 1, 0]"
  by (simp add: argsort_desc_def key_desc_def upt_conv_Cons numeral_3_eq_3 less_eq_prod_def)

lemma ex_ranked_top_two: "top_feats ex_collab ex_ranked 2 = [2, 1]"
  by (simp add: top_feats_def ex_collab_def ex_ranked_scores ex_ranked_argsort slice_stop_def)

text \<open>
  C10, as stated for any \<open>n_feats\<close>, fails for a negative one: \<^verbatim>\<open>[: self.n_feats]\<close> then
  drops channels from the end of the ranking instead of keeping none. With three channels
  and \<open>n_feats = -1\<close> two channels are kept, which is not \<open>min(n_feats, 3)\<close>.
\<close>

theorem mimic_negative_n_feats_counterexample:
  "(case fst (setup_module ex_collab ex_mimic_negative
               (ex_cache [''data'', ''mimiciii''] ex_ranked ex_ranked)) of
      Inl e \<Rightarrow> False
    | Inr m' \<Rightarrow> n_chan (X_train m') = 2 \<and> n_chan (X_test m') = 2
               \<and> int (n_chan (X_train m')) \<noteq> min (- 1) (int (n_chan ex_ranked)))"
proof -
  have k: "kind ex_mimic_negative = MIMICIII (- 1)"
    and dir: "data_dir ex_mimic_negative = [''data'', ''mimiciii'']"
    by (simp_all add: ex_mimic_negative_def Datamodule_init_def)
  have c: "n_chan ex_ranked = 3" by (simp add: ex_ranked_def ex_ramp_def)
  note f = ex_cache_files [of "[''data'', ''mimiciii'']" ex_ranked ex_ranked, folded dir]
  let ?W = "ex_cache (data_dir ex_mimic_negative) ex_ranked ex_ranked"
  have st: "setup_module ex_collab ex_mimic_negative ?W
              = (MIMICIII_load ex_collab (- 1) ex_mimic_negative (fs ?W), ?W)"
    by (rule MIMICIII_setup_files [OF k f])
  have ld: "MIMICIII_load ex_collab (- 1) ex_mimic_negative (fs ?W) =
     Inr (ex_mimic_negative
           \<lparr>X_train := \<lparr>n_rows = n_rows ex_ranked, seq_len = seq_len ex_ranked,
                          n_chan = slice_stop (n_chan ex_ranked) (- 1),
                          elt = (\<lambda>i t c. elt ex_ranked i t
                                          (top_feats ex_collab ex_ranked (- 1) ! c))\<rparr>,
             X_test := \<lparr>n_rows = n_rows ex_ranked, seq_len = seq_len ex_ranked,
                         n_chan = slice_stop (n_chan ex_ranked) (- 1),
                         elt = (\<lambda>i t c. elt ex_ranked i t
                                         (top_feats ex_collab ex_ranked (- 1) ! c))\<rparr>\<rparr>)"
    by (rule MIMICIII_load_ok [OF ex_collab_argsort f]) simp
  show ?thesis
    unfolding dir [symmetric] st ld fst_conv c by (simp add: slice_stop_def)
qed

text \<open>
  C10, amended. For the MIMIC-III adapter with \<open>n_feats \<ge> 0\<close>, a cached pair whose test
  tensor has at least as many channels as the training tensor, and \<^verbatim>\<open>torch.argsort\<close>
  returning a descending ranking of the scores (whatever order it gives to equal scores),
  \<^verbatim>\<open>setup\<close> succeeds. The channel indices it keeps are the first \<open>min(n_feats, C)\<close> of the
  ranking of the scores of \<open>X_train\<close> alone, \<open>C\<close> its channel count: the score of a channel
  is the standard deviation over the samples, averaged over the time steps; the indices
  are distinct, in order of decreasing score, and every kept channel scores at least as
  high as every channel left out. The same indices select the channels of \<open>X_train\<close> and
  of \<open>X_test\<close>, so the test channels are chosen by training statistics only, and both
  tensors end with \<open>min(n_feats, C)\<close> channels.
\<close>

theorem mimic_channel_selection:
  assumes R: "is_argsort_desc (mimic_scores A) (torch_argsort E True (mimic_scores A))"
    and k: "kind m = MIMICIII n_feats"
    and A: "fs w (data_dir m @ [''X_train.pt'']) = Some (PtFile A)"
    and B: "fs w (data_dir m @ [''X_test.pt'']) = Some (PtFile B)"
    and ch: "n_chan A \<le> n_chan B" and nn: "0 \<le> n_feats"
  shows "\<exists>m'. setup_module E m w = (Inr m', w)
    \<and> n_chan (X_train m') = min (nat n_feats) (n_chan A)
    \<and> n_chan (X_test m') = min (nat n_feats) (n_chan A)
    \<and> n_rows (X_train m') = n_rows A \<and> seq_len (X_train m') = seq_len A
    \<and> n_rows (X_test m') = n_rows B \<and> seq_len (X_test m') = seq_len B
    \<and> (\<forall>i t c. elt (X_train m') i t c = elt A i t (top_feats E A n_feats ! c)
              \<and> elt (X_test m') i t c = elt B i t (top_feats E A n_feats ! c))
    \<and> top_feats E A n_feats
        = take (min (nat n_feats) (n_chan A)) (torch_argsort E True (mimic_scores A))
    \<and> length (top_feats E A n_feats) = min (nat n_feats) (n_chan A)
    \<and> distinct (top_feats E A n_feats) \<and> set (top_feats E A n_feats) \<subseteq> {0..<n_chan A}
    \<and> mimic_scores A
        = map (\<lambda>c. tmean (map (\<lambda>t. tstd (column0 A t c)) [0..<seq_len A])) [0..<n_chan A]
    \<and> (\<forall>j l. j \<le> l \<and> l < length (top_feats E A n_feats) \<longrightarrow>
          score_ge (mimic_scores A ! (top_feats E A n_feats ! j))
                   (mimic_scores A ! (top_feats E A n_feats ! l)))
    \<and> (\<forall>c\<in>set (top_feats E A n_feats). \<forall>c'\<in>{0..<n_chan A} - set (top_feats E A n_feats).
          score_ge (mimic_scores A ! c) (mimic_scores A ! c'))"
proof -
  have sc: "mimic_scores A
        = map (\<lambda>c. tmean (map (\<lambda>t. tstd (column0 A t c)) [0..<seq_len A])) [0..<n_chan A]"
    by (simp add: mimic_scores_def std_dim0_def)
  have len: "length (top_feats E A n_feats) = min (nat n_feats) (n_chan A)"
    using nn by (simp add: top_feats_length [OF R] slice_stop_nonneg)
  have tk: "top_feats E A n_feats
        = take (min (nat n_feats) (n_chan A)) (torch_argsort E True (mimic_scores A))"
    using nn is_argsort_desc_length [OF R]
    by (simp add: top_feats_def Let_def slice_stop_nonneg mimic_scores_length)
  have st: "setup_module E m w =
     (Inr (m\<lparr>X_train := \<lparr>n_rows = n_rows A, seq_len = seq_len A,
                          n_chan = slice_stop (n_chan A) n_feats,
                          elt = (\<lambda>i t c. elt A i t (top_feats E A n_feats ! c))\<rparr>,
             X_test := \<lparr>n_rows = n_rows B, seq_len = seq_len B,
                         n_chan = slice_stop (n_chan A) n_feats,
                         elt = (\<lambda>i t c. elt B i t (top_feats E A n_feats ! c))\<rparr>\<rparr>), w)"
    by (simp add: MIMICIII_setup_files [OF k A B] MIMICIII_load_ok [OF R A B ch])
  have desc: "\<forall>j l. j \<le> l \<and> l < length (top_feats E A n_feats) \<longrightarrow>
          score_ge (mimic_scores A ! (top_feats E A n_feats ! j))
                   (mimic_scores A ! (top_feats E A n_feats ! l))"
    using top_feats_descending [OF R] by blast
  have best: "\<forall>c\<in>set (top_feats E A n_feats). \<forall>c'\<in>{0..<n_chan A} - set (top_feats E A n_feats).
          score_ge (mimic_scores A ! c) (mimic_scores A ! c')"
    using top_feats_best [OF R] by blast
  show ?thesis
    unfolding st
    using len tk [symmetric] sc [symmetric] desc best top_feats_distinct [OF R, of n_feats]
      top_feats_set [OF R, of n_feats] nn
    by (simp add: slice_stop_nonneg)
qed

theorem mimic_channel_selection_witness:
  "mimic_scores ex_ranked = [Some 1, Some 2, Some 3]
   \<and> top_feats ex_collab ex_ranked 2 = [2, 1]
   \<and> (\<exists>m'. setup_module ex_collab ex_mimic_two
              (ex_cache [''data'', ''mimiciii''] ex_ranked (ex_series 7 3))
            = (Inr m', ex_cache [''data'', ''mimiciii''] ex_ranked (ex_series 7 3))
        \<and> n_chan (X_train m') = 2 \<and> n_chan (X_test m') = 2
        \<and> elt (X_train m') 1 0 0 = elt ex_ranked 1 0 2
        \<and> elt (X_train m') 1 0 1 = elt ex_ranked 1 0 1
        \<and> elt (X_test m') 0 0 0 = elt (ex_series 7 3) 0 0 2
        \<and> elt (X_test m') 0 0 1 = elt (ex_series 7 3) 0 0 1)"
proof -
  have k: "kind ex_mimic_two = MIMICIII 2" and dir: "data_dir ex_mimic_two = [''data'', ''mimiciii'']"
    by (simp_all add: ex_mimic_two_def Datamodule_init_def)
  note f = ex_cache_files [of "[''data'', ''mimiciii'']" ex_ranked "ex_series 7 3", folded dir]
  have h: "n_chan ex_ranked \<le> n_chan (ex_series 7 3)" "(0::int) \<le> 2"
    by (simp_all add: ex_series_def ex_ranked_def ex_ramp_def)
  have c: "n_chan ex_ranked = 3" by (simp add: ex_ranked_def ex_ramp_def)
  let ?W = "ex_cache (data_dir ex_mimic_two) ex_ranked (ex_series 7 3)"
  from mimic_channel_selection [OF ex_collab_argsort k f h]
  obtain m' where st: "setup_module ex_collab ex_mimic_two ?W = (Inr m', ?W)"
    and n: "n_chan (X_train m') = min (nat 2) (n_chan ex_ranked)"
           "n_chan (X_test m') = min (nat 2) (n_chan ex_ranked)"
    and e: "\<forall>i t c. elt (X_train m') i t c = elt ex_ranked i t (top_feats ex_collab ex_ranked 2 ! c)
              \<and> elt (X_test m') i t c = elt (ex_series 7 3) i t (top_feats ex_collab ex_ranked 2 ! c)"
    by blast
  have n2: "n_chan (X_train m') = 2" "n_chan (X_test m') = 2"
    using n by (simp_all add: c)
  have e2: "elt (X_train m') 1 0 0 = elt ex_ranked 1 0 2"
    "elt (X_train m') 1 0 1 = elt ex_ranked 1 0 1"
    "elt (X_test m') 0 0 0 = elt (ex_series 7 3) 0 0 2"
    "elt (X_test m') 0 0 1 = elt (ex_series 7 3) 0 0 1"
    using e by (simp_all add: ex_ranked_top_two)
  show ?thesis
    using st n2 e2 ex_ranked_scores ex_ranked_top_two unfolding dir by blast
qed


subsection \<open>Shapes of the training and test tensors after \<^verbatim>\<open>setup\<close>\<close>

lemma after_cache_Inr:
  "after_cache r load = (Inr m', w') \<Longrightarrow> load (fs w') = Inr m'"
  by (auto simp: after_cache_def split: prod.splits sum.splits)

lemma select_channels_shape:
  "select_channels T idx = Inr T' \<Longrightarrow> seq_len T' = seq_len T \<and> n_chan T' = length idx"
  by (auto simp: select_channels_def split: if_splits)

lemma every_other_step_shape:
  "every_other_step T idx = Inr T' \<Longrightarrow>
     seq_len T' = (seq_len T + 1) div 2 \<and> n_chan T' = length idx"
  by (auto simp: every_other_step_def split: if_splits)

lemma gather_rows_shape:
  "gather_rows T idx = Inr T' \<Longrightarrow> shape_tail T' = shape_tail T"
  by (auto simp: gather_rows_def shape_tail_def split: if_splits)

lemma NASDAQ_load_shape:
  assumes "NASDAQ_load m f = Inr m'"
  shows "shape_tail (X_train m') = (252, 5) \<and> shape_tail (X_test m') = (252, 5)"
  using assms
  by (auto simp: NASDAQ_load_def shape_tail_def channels_upto_def slice_stop_def
      split: sum.splits if_splits)

lemma NASA_load_charge_shape:
  assumes "NASA_load ''charge'' True m f = Inr m'"
  shows "shape_tail (X_train m') = (251, 4) \<and> shape_tail (X_test m') = (251, 4)"
  using assms
  by (auto simp: NASA_load_def shape_tail_def split: sum.splits if_splits)

lemma NASA_load_agree:
  assumes "NASA_load sub r m f = Inr m'"
    and "load_pair (data_dir m @ [sub]) f = Inr (A, B)" and "shape_tail A = shape_tail B"
  shows "shape_tail (X_train m') = shape_tail (X_test m')"
  using assms
  by (auto simp: NASA_load_def shape_tail_def dest!: every_other_step_shape
      split: sum.splits if_splits)

lemma USDroughts_load_shape:
  assumes "USDroughts_load m f = Inr m'"
  shows "n_chan (X_train m') = n_chan (X_test m')
       \<and> seq_len (X_train m') mod 365 = 0 \<and> seq_len (X_test m') mod 365 = 0"
  using assms
  by (auto simp: USDroughts_load_def Let_def split: sum.splits if_splits)

lemma USDroughts_load_agree:
  assumes "USDroughts_load m f = Inr m'"
    and "load_pair (data_dir m) f = Inr (A, B)" and "shape_tail A = shape_tail B"
  shows "shape_tail (X_train m') = shape_tail (X_test m')"
  using assms
  by (auto simp: USDroughts_load_def Let_def shape_tail_def dest!: select_channels_shape
      split: sum.splits if_splits)

lemma MIMICIII_load_agree:
  assumes "MIMICIII_load E n m f = Inr m'"
    and "load_pair (data_dir m) f = Inr (A, B)" and "shape_tail A = shape_tail B"
  shows "shape_tail (X_train m') = shape_tail (X_test m')"
  using assms
  by (auto simp: MIMICIII_load_def Let_def shape_tail_def dest!: select_channels_shape
      split: sum.splits if_splits)

lemma Synthetic_setup_agree:
  assumes "Synthetic_setup m f = Inr m'"
    and "read_csv False (data_dir m @ [''train.csv'']) f = Inr F"
    and "read_csv False (data_dir m @ [''test.csv'']) f = Inr G"
    and "f_cols F = f_cols G"
  shows "shape_tail (X_train m') = shape_tail (X_test m')"
  using assms
  by (auto simp: Synthetic_setup_def shape_tail_def frame_tensor_def split: sum.splits)

lemma ECG_subsample_shape:
  assumes "ECG_subsample E m = Inr m'"
  shows "shape_tail (X_train m') = shape_tail (X_train m) \<and> X_test m' = X_test m"
  using assms
  by (auto simp: ECG_subsample_def Let_def dest!: gather_rows_shape
      split: prod.splits sum.splits option.splits if_splits)

lemma ECG_setup_shape:
  assumes s: "ECG_setup E a b c m f = Inr m'"
    and sm: "b \<and> c > 0 \<longrightarrow> (\<forall>T sigma. shape_tail (smooth_frequency E T sigma) = shape_tail T)"
  shows "shape_tail (X_train m') = (187, 1) \<and> shape_tail (X_test m') = (187, 1)"
proof -
  from s obtain F G m2 where
    m2: "(if a then ECG_subsample E (m\<lparr>X_train := frame_tensor F 187,
                           y_train := Some (frame_labels F 187),
                           X_test := frame_tensor G 187,
                           y_test := Some (frame_labels G 187)\<rparr>)
          else Inr (m\<lparr>X_train := frame_tensor F 187,
                           y_train := Some (frame_labels F 187),
                           X_test := frame_tensor G 187,
                           y_test := Some (frame_labels G 187)\<rparr>)) = Inr m2"
    and m': "m' = (if b \<and> c > 0
                   then m2\<lparr>X_train := smooth_frequency E (X_train m2) c,
                           X_test := smooth_frequency E (X_test m2) c\<rparr>
                   else m2)"
    by (auto simp: ECG_setup_def Let_def split: sum.splits if_splits)
  have "shape_tail (X_train m2) = (187, 1) \<and> shape_tail (X_test m2) = (187, 1)"
    using m2 by (auto simp: shape_tail_def frame_tensor_def dest!: ECG_subsample_shape
        split: if_splits)
  then show ?thesis using sm by (auto simp: m')
qed

text \<open>
  C4, as stated for every adapter, fails: \<^verbatim>\<open>setup\<close> of the drought adapter completes on a
  cached pair whose sequence lengths are 365 and 730, both multiples of 365, and leaves
  tensors whose sequence lengths differ.
\<close>

theorem setup_shape_counterexample:
  "(case fst (setup_module ex_collab ex_droughts
               (ex_cache [''data'', ''droughts''] (ex_series 365 10) (ex_series 730 10))) of
      Inl e \<Rightarrow> False
    | Inr m' \<Rightarrow> shape_tail (X_train m') = (365, 5) \<and> shape_tail (X_test m') = (730, 5))"
proof -
  have k: "kind ex_droughts = USDroughts" and dir: "data_dir ex_droughts = [''data'', ''droughts'']"
    by (simp_all add: ex_droughts_def Datamodule_init_def)
  note f = ex_cache_files [of "[''data'', ''droughts'']" "ex_series 365 10" "ex_series 730 10",
      folded dir]
  have h: "n_chan (ex_series 365 10) \<le> n_chan (ex_series 730 10)"
    "seq_len (ex_series 365 10) mod 365 = 0" "seq_len (ex_series 730 10) mod 365 = 0"
    by (simp_all add: ex_series_def)
  have c: "n_chan (ex_series 365 10) = 10" "seq_len (ex_series 365 10) = 365"
    "seq_len (ex_series 730 10) = 730"
    by (simp_all add: ex_series_def)
  show ?thesis
    unfolding dir [symmetric] USDroughts_setup_files [OF k f] USDroughts_load_ok [OF f h] fst_conv
    by (simp add: shape_tail_def c drought_feats_10)
qed

text \<open>
  C4, amended. Whenever \<^verbatim>\<open>setup\<close> completes: the NASDAQ adapter leaves both tensors with
  shape tail \<open>(252, 5)\<close>, and the NASA adapter on the charge subdataset with the outlier
  feature removed leaves both with \<open>(251, 4)\<close>, because assertions enforce it; the drought
  adapter leaves the same number of channels in both and sequence lengths that are
  multiples of 365; the ECG adapter leaves both with \<open>(187, 1)\<close>, provided the frequency
  smoothing, when used, keeps the shape; and the synthetic, MIMIC-III, drought and NASA
  adapters leave \<open>X_train\<close> and \<open>X_test\<close> with equal shape tails provided the two tables or
  cached tensors they load agree on the shape tail.
\<close>

theorem setup_shape_agreement:
  assumes s: "setup_module E m w = (Inr m', w')"
  shows "(kind m = NASDAQ \<longrightarrow>
            shape_tail (X_train m') = (252, 5) \<and> shape_tail (X_test m') = (252, 5))
       \<and> (kind m = NASA ''charge'' True \<longrightarrow>
            shape_tail (X_train m') = (251, 4) \<and> shape_tail (X_test m') = (251, 4))
       \<and> (kind m = USDroughts \<longrightarrow>
            n_chan (X_train m') = n_chan (X_test m')
            \<and> seq_len (X_train m') mod 365 = 0 \<and> seq_len (X_test m') mod 365 = 0)
       \<and> (\<forall>a b c. kind m = ECG a b c
             \<and> (b \<and> c > 0 \<longrightarrow>
                  (\<forall>T sigma. shape_tail (smooth_frequency E T sigma) = shape_tail T)) \<longrightarrow>
            shape_tail (X_train m') = (187, 1) \<and> shape_tail (X_test m') = (187, 1))
       \<and> (\<forall>a b F G. kind m = Synthetic a b
             \<and> read_csv False (data_dir m @ [''train.csv'']) (fs w') = Inr F
             \<and> read_csv False (data_dir m @ [''test.csv'']) (fs w') = Inr G
             \<and> f_cols F = f_cols G \<longrightarrow>
            shape_tail (X_train m') = shape_tail (X_test m'))
       \<and> (\<forall>A B. ((\<exists>n. kind m = MIMICIII n) \<or> kind m = USDroughts)
             \<and> load_pair (data_dir m) (fs w') = Inr (A, B) \<and> shape_tail A = shape_tail B \<longrightarrow>
            shape_tail (X_train m') = shape_tail (X_test m'))
       \<and> (\<forall>sub r A B. kind m = NASA sub r
             \<and> load_pair (data_dir m @ [sub]) (fs w') = Inr (A, B) \<and> shape_tail A = shape_tail B \<longrightarrow>
            shape_tail (X_train m') = shape_tail (X_test m'))"
proof -
  have 1: "kind m = NASDAQ \<longrightarrow>
            shape_tail (X_train m') = (252, 5) \<and> shape_tail (X_test m') = (252, 5)"
    using s by (auto simp: setup_module_def dest!: after_cache_Inr NASDAQ_load_shape)
  have 2: "kind m = NASA ''charge'' True \<longrightarrow>
            shape_tail (X_train m') = (251, 4) \<and> shape_tail (X_test m') = (251, 4)"
    using s by (auto simp: setup_module_def dest!: after_cache_Inr NASA_load_charge_shape)
  have 3: "kind m = USDroughts \<longrightarrow>
            n_chan (X_train m') = n_chan (X_test m')
            \<and> seq_len (X_train m') mod 365 = 0 \<and> seq_len (X_test m') mod 365 = 0"
    using s by (auto simp: setup_module_def dest!: after_cache_Inr USDroughts_load_shape)
  have 4: "\<forall>a b c. kind m = ECG a b c
             \<and> (b \<and> c > 0 \<longrightarrow>
                  (\<forall>T sigma. shape_tail (smooth_frequency E T sigma) = shape_tail T)) \<longrightarrow>
            shape_tail (X_train m') = (187, 1) \<and> shape_tail (X_test m') = (187, 1)"
  proof (intro allI impI)
    fix a b c
    assume h: "kind m = ECG a b c
             \<and> (b \<and> c > 0 \<longrightarrow>
                  (\<forall>T sigma. shape_tail (smooth_frequency E T sigma) = shape_tail T))"
    then have "ECG_setup E a b c m (fs w) = Inr m'"
      using s by (auto simp: setup_module_def)
    then show "shape_tail (X_train m') = (187, 1) \<and> shape_tail (X_test m') = (187, 1)"
      using h by (intro ECG_setup_shape) blast+
  qed
  have 5: "\<forall>a b F G. kind m = Synthetic a b
             \<and> read_csv False (data_dir m @ [''train.csv'']) (fs w') = Inr F
             \<and> read_csv False (data_dir m @ [''test.csv'']) (fs w') = Inr G
             \<and> f_cols F = f_cols G \<longrightarrow>
            shape_tail (X_train m') = shape_tail (X_test m')"
    using s by (auto simp: setup_module_def intro: Synthetic_setup_agree)
  have 6: "\<forall>A B. ((\<exists>n. kind m = MIMICIII n) \<or> kind m = USDroughts)
             \<and> load_pair (data_dir m) (fs w') = Inr (A, B) \<and> shape_tail A = shape_tail B \<longrightarrow>
            shape_tail (X_train m') = shape_tail (X_test m')"
    using s
    by (auto simp: setup_module_def dest!: after_cache_Inr
        intro: MIMICIII_load_agree USDroughts_load_agree)
  have 7: "\<forall>sub r A B. kind m = NASA sub r
             \<and> load_pair (data_dir m @ [sub]) (fs w') = Inr (A, B) \<and> shape_tail A = shape_tail B \<longrightarrow>
            shape_tail (X_train m') = shape_tail (X_test m')"
    using s by (auto simp: setup_module_def dest!: after_cache_Inr intro: NASA_load_agree)
  from 1 2 3 4 5 6 7 show ?thesis by (intro conjI) assumption+
qed

theorem setup_shape_agreement_witness:
  "\<exists>m'. setup_module ex_collab ex_nasdaq
           (ex_cache [''data'', ''nasdaq''] (ex_series 252 6) (ex_series 252 6))
          = (Inr m', ex_cache [''data'', ''nasdaq''] (ex_series 252 6) (ex_series 252 6))
    \<and> shape_tail (X_train m') = (252, 5) \<and> shape_tail (X_test m') = (252, 5)"
proof -
  have k: "kind ex_nasdaq = NASDAQ" and dir: "data_dir ex_nasdaq = [''data'', ''nasdaq'']"
    by (simp_all add: ex_nasdaq_def Datamodule_init_def)
  let ?W = "ex_cache (data_dir ex_nasdaq) (ex_series 252 6) (ex_series 252 6)"
  note f = ex_cache_files [of "data_dir ex_nasdaq" "ex_series 252 6" "ex_series 252 6"]
  have st: "setup_module ex_collab ex_nasdaq ?W = (NASDAQ_load ex_nasdaq (fs ?W), ?W)"
    using load_pair_files(2) [OF f]
    by (simp add: setup_module_def k after_cache_def preprocess_if_missing_def cached_def)
  have "\<exists>m'. NASDAQ_load ex_nasdaq (fs ?W) = Inr m'"
    unfolding NASDAQ_load_def load_pair_files(1) [OF f]
    by (simp add: shape_tail_def ex_series_def)
  then obtain m' where m': "setup_module ex_collab ex_nasdaq ?W = (Inr m', ?W)"
    using st by auto
  from setup_shape_agreement [OF m'] k m' show ?thesis
    unfolding dir by blast
qed

end
